theory Spec2Isabelle
  imports Complex_Main "HOL-Library.Log_Nat"
begin

section \<open>The numbers of the calculator\<close>

text \<open>
  The contract calculator (\<^verbatim>\<open>calculateContract\<close> and the two inverse solvers of
  \<^verbatim>\<open>client/src/lib/encryption.ts\<close>) computes on the TypeScript type \<^verbatim>\<open>number\<close>,
  the IEEE 754 binary64 format. A \<^verbatim>\<open>number\<close> is modelled as a real, a negative zero,
  one of the two infinities, or NaN; \<open>Fin 0\<close> is the positive zero.

  IEEE 754 defines an operation in two stages: the infinitely precise result, and its
  rounding to the format. The operations \<open>+\<close>, \<open>-\<close>, \<open>*\<close> and \<open>/\<close> of this
  section are the first stage alone: exact on the reals, with the special values as
  ECMAScript prescribes them (a division by a zero gives an infinity or NaN, NaN is
  absorbing, the sign of a zero is kept), and without rounding, overflow or underflow.
  The binary64 operations \<open>add64\<close>, \<open>sub64\<close>, \<open>mul64\<close> and \<open>div64\<close> (below)
  round the exact result, and are the arithmetic of the running code. A theorem about
  \<open>calculateContract\<close> or a solver is a statement in the exact arithmetic; a theorem
  about \<open>calculateContract64\<close> is a statement about the running code.
\<close>

datatype number = Fin real | NegZero | PosInf | NegInf | NaN

fun is_fin :: "number \<Rightarrow> bool" where
  "is_fin (Fin _) = True"
| "is_fin NegZero = True"
| "is_fin _ = False"

fun is_inf :: "number \<Rightarrow> bool" where
  "is_inf PosInf = True"
| "is_inf NegInf = True"
| "is_inf _ = False"

fun is_zero :: "number \<Rightarrow> bool" where
  "is_zero (Fin x) = (x = 0)"
| "is_zero NegZero = True"
| "is_zero _ = False"

text \<open>The real that a finite number stands for (both zeros stand for 0).\<close>

fun val :: "number \<Rightarrow> real" where
  "val (Fin x) = x"
| "val _ = 0"

text \<open>The sign bit: set for negative reals, the negative zero and the negative infinity.\<close>

fun sign_bit :: "number \<Rightarrow> bool" where
  "sign_bit (Fin x) = (x < 0)"
| "sign_bit NegZero = True"
| "sign_bit NegInf = True"
| "sign_bit _ = False"

definition signed_inf :: "bool \<Rightarrow> number" where
  "signed_inf s = (if s then NegInf else PosInf)"

definition signed_fin :: "bool \<Rightarrow> real \<Rightarrow> number" where
  "signed_fin s x = (if x = 0 \<and> s then NegZero else Fin x)"

instantiation number :: "{uminus, plus, minus, times, inverse, ord}"
begin

fun uminus_number :: "number \<Rightarrow> number" where
  "uminus_number (Fin x) = (if x = 0 then NegZero else Fin (- x))"
| "uminus_number NegZero = Fin 0"
| "uminus_number PosInf = NegInf"
| "uminus_number NegInf = PosInf"
| "uminus_number NaN = NaN"

definition plus_number :: "number \<Rightarrow> number \<Rightarrow> number" where
  "plus_number a b =
     (if a = NaN \<or> b = NaN then NaN
      else if is_inf a then (if is_inf b \<and> a \<noteq> b then NaN else a)
      else if is_inf b then b
      else if a = NegZero then b
      else if b = NegZero then a
      else Fin (val a + val b))"

definition minus_number :: "number \<Rightarrow> number \<Rightarrow> number" where
  "minus_number a b = a + (- b)"

definition times_number :: "number \<Rightarrow> number \<Rightarrow> number" where
  "times_number a b =
     (if a = NaN \<or> b = NaN then NaN
      else if is_inf a \<or> is_inf b then
        (if is_zero a \<or> is_zero b then NaN else signed_inf (sign_bit a \<noteq> sign_bit b))
      else signed_fin (sign_bit a \<noteq> sign_bit b) (val a * val b))"

definition divide_number :: "number \<Rightarrow> number \<Rightarrow> number" where
  "divide_number a b =
     (if a = NaN \<or> b = NaN then NaN
      else if is_inf a then
        (if is_inf b then NaN else signed_inf (sign_bit a \<noteq> sign_bit b))
      else if is_inf b then signed_fin (sign_bit a \<noteq> sign_bit b) 0
      else if is_zero b then
        (if is_zero a then NaN else signed_inf (sign_bit a \<noteq> sign_bit b))
      else signed_fin (sign_bit a \<noteq> sign_bit b) (val a / val b))"

definition inverse_number :: "number \<Rightarrow> number" where
  "inverse_number a = divide (Fin 1) a"

text \<open>The comparisons \<^verbatim>\<open><=\<close> and \<^verbatim>\<open><\<close>: false whenever an operand is NaN.\<close>

definition less_eq_number :: "number \<Rightarrow> number \<Rightarrow> bool" where
  "less_eq_number a b =
     (a \<noteq> NaN \<and> b \<noteq> NaN \<and>
      (a = NegInf \<or> b = PosInf \<or> (is_fin a \<and> is_fin b \<and> val a \<le> val b)))"

definition less_number :: "number \<Rightarrow> number \<Rightarrow> bool" where
  "less_number a b =
     (a \<noteq> NaN \<and> b \<noteq> NaN \<and>
      ((a = NegInf \<and> b \<noteq> NegInf) \<or> (b = PosInf \<and> a \<noteq> PosInf) \<or>
       (is_fin a \<and> is_fin b \<and> val a < val b)))"

instance ..

end

text \<open>\<^verbatim>\<open>===\<close> on numbers: NaN equals nothing, the two zeros are equal.\<close>

definition strict_eq :: "number \<Rightarrow> number \<Rightarrow> bool" where
  "strict_eq a b = (a \<noteq> NaN \<and> b \<noteq> NaN \<and> (a = b \<or> (is_zero a \<and> is_zero b)))"

text \<open>\<^verbatim>\<open>Math.abs\<close> and the two-argument \<^verbatim>\<open>Math.max\<close> (NaN if an argument is NaN,
  and the positive zero is the larger zero).\<close>

fun Math_abs :: "number \<Rightarrow> number" where
  "Math_abs (Fin x) = Fin \<bar>x\<bar>"
| "Math_abs NegZero = Fin 0"
| "Math_abs PosInf = PosInf"
| "Math_abs NegInf = PosInf"
| "Math_abs NaN = NaN"

definition Math_max :: "number \<Rightarrow> number \<Rightarrow> number" where
  "Math_max a b =
     (if a = NaN \<or> b = NaN then NaN
      else if a < b then b
      else if b < a then a
      else if a = NegZero then b
      else a)"

section \<open>The contract calculator in exact real arithmetic\<close>

datatype MarginMode = isolated | cross

datatype PositionType = long | short

text \<open>\<^verbatim>\<open>interface ContractParams\<close>: an optional field is \<open>None\<close> when it is absent.\<close>

record ContractParams =
  openPrice :: number
  margin :: number
  leverage :: number
  marginMode :: MarginMode
  positionType :: PositionType
  maintainanceRate :: "number option"
  openFee :: "number option"
  closeFee :: "number option"
  fundingRate :: "number option"
  fundingPeriodHours :: "number option"

text \<open>\<^verbatim>\<open>interface CalculationResult\<close>; its last two fields are the closures.\<close>

record CalculationResult =
  positionSize :: number
  positionSizeInCoin :: number
  liquidationPrice :: number
  liquidationPricePercent :: number
  riskPercentage :: number
  maxLoss :: number
  openFeeAmount :: number
  closeFeeAmount :: number
  totalFeeAmount :: number
  fundingFeePerPeriod :: number
  fundingFeePerDay :: number
  breakEvenPrice :: number
  profitAtPrice :: "number \<Rightarrow> number"
  profitPercentAtPrice :: "number \<Rightarrow> number"

text \<open>The nullish coalescing \<^verbatim>\<open>x ?? d\<close> on an optional field.\<close>

fun nullish :: "'a option \<Rightarrow> 'a \<Rightarrow> 'a" where
  "nullish (Some v) d = v"
| "nullish None d = d"

definition calculateContract :: "ContractParams \<Rightarrow> CalculationResult" where
  "calculateContract params =
     (let maintainanceRate = nullish (maintainanceRate params) (Fin 0.005);
          openFeeRate = nullish (openFee params) (Fin 0.0002);
          closeFeeRate = nullish (closeFee params) (Fin 0.0002);
          fundingRate = nullish (fundingRate params) (Fin 0);
          fundingPeriodHours = nullish (fundingPeriodHours params) (Fin 8);
          positionSize = margin params * leverage params;
          positionSizeInCoin = positionSize / openPrice params;
          openFeeAmount = positionSize * openFeeRate;
          closeFeeAmount = positionSize * closeFeeRate;
          totalFeeAmount = openFeeAmount + closeFeeAmount;
          liquidationPrice =
            (if positionType params = long
             then openPrice params * (Fin 1 - Fin 1 / leverage params + maintainanceRate)
             else openPrice params * (Fin 1 + Fin 1 / leverage params - maintainanceRate));
          priceChange = Math_abs (liquidationPrice - openPrice params);
          riskPercentage = (priceChange / openPrice params) * Fin 100;
          maxLoss = margin params;
          fundingFeePerPeriod = positionSize * fundingRate;
          fundingFeePerDay = (fundingFeePerPeriod / fundingPeriodHours) * Fin 24;
          breakEvenPrice =
            (if positionType params = long
             then openPrice params * (Fin 1 + (totalFeeAmount / positionSize) * Fin 1.1)
             else openPrice params * (Fin 1 - (totalFeeAmount / positionSize) * Fin 1.1));
          profitAtPrice = (\<lambda>price.
            if positionType params = long
            then (price - openPrice params) * positionSizeInCoin - totalFeeAmount
            else (openPrice params - price) * positionSizeInCoin - totalFeeAmount);
          profitPercentAtPrice = (\<lambda>price.
            let profit = profitAtPrice price in (profit / margin params) * Fin 100);
          liquidationPricePercent =
            ((liquidationPrice - openPrice params) / openPrice params) * Fin 100
      in \<lparr> positionSize = positionSize,
           positionSizeInCoin = positionSizeInCoin,
           liquidationPrice = liquidationPrice,
           liquidationPricePercent = liquidationPricePercent,
           riskPercentage = riskPercentage,
           maxLoss = maxLoss,
           openFeeAmount = openFeeAmount,
           closeFeeAmount = closeFeeAmount,
           totalFeeAmount = totalFeeAmount,
           fundingFeePerPeriod = fundingFeePerPeriod,
           fundingFeePerDay = fundingFeePerDay,
           breakEvenPrice = breakEvenPrice,
           profitAtPrice = profitAtPrice,
           profitPercentAtPrice = profitPercentAtPrice \<rparr>)"

text \<open>
  The two inverse solvers. Their last parameter has the default value 0.005, taken
  when the caller leaves the argument out (\<open>None\<close>).
\<close>

definition calculateLeverageFromLiquidationPrice ::
    "number \<Rightarrow> number \<Rightarrow> PositionType \<Rightarrow> number option \<Rightarrow> number" where
  "calculateLeverageFromLiquidationPrice =
     (\<lambda>openPrice targetLiquidationPrice positionType maintainanceRate'.
        let maintainanceRate = nullish maintainanceRate' (Fin 0.005) in
        if positionType = long then
          (let ratio = targetLiquidationPrice / openPrice;
               leverage = Fin 1 / (Fin 1 - ratio + maintainanceRate)
           in Math_max (Fin 1) leverage)
        else
          (let ratio = targetLiquidationPrice / openPrice;
               leverage = Fin 1 / (ratio - Fin 1 - maintainanceRate)
           in Math_max (Fin 1) leverage))"

definition calculateLeverageFromRiskPercentage ::
    "number \<Rightarrow> PositionType \<Rightarrow> number option \<Rightarrow> number" where
  "calculateLeverageFromRiskPercentage =
     (\<lambda>riskPercentage positionType maintainanceRate'.
        let maintainanceRate = nullish maintainanceRate' (Fin 0.005);
            leverage = Fin 1 / (riskPercentage / Fin 100 + maintainanceRate)
        in Math_max (Fin 1) leverage)"

section \<open>Parameters that are real numbers\<close>

text \<open>
  The data model of the specification gives every numeric field of the parameters a
  real value. \<open>finite_params\<close> says so in the model: no field is NaN or infinite
  (an absent optional field takes its default, which is finite).
\<close>

fun fin_opt :: "number option \<Rightarrow> bool" where
  "fin_opt None = True"
| "fin_opt (Some v) = is_fin v"

definition finite_params :: "ContractParams \<Rightarrow> bool" where
  "finite_params p =
     (is_fin (openPrice p) \<and> is_fin (margin p) \<and> is_fin (leverage p) \<and>
      fin_opt (maintainanceRate p) \<and> fin_opt (openFee p) \<and> fin_opt (closeFee p) \<and>
      fin_opt (fundingRate p) \<and> fin_opt (fundingPeriodHours p))"

text \<open>
  The parameters that \<^verbatim>\<open>Home.tsx\<close> starts with: open price 60000, margin 20,
  leverage 5, long, isolated, a maintenance rate of 0.5 percent, both fee rates
  0.02 percent, funding rate 0, and no funding period.
\<close>

definition example_params :: ContractParams where
  "example_params =
     \<lparr> openPrice = Fin 60000, margin = Fin 20, leverage = Fin 5,
       marginMode = isolated, positionType = long,
       maintainanceRate = Some (Fin 0.005), openFee = Some (Fin 0.0002),
       closeFee = Some (Fin 0.0002), fundingRate = Some (Fin 0),
       fundingPeriodHours = None \<rparr>"

section \<open>The denominators of the inverse solvers\<close>

text \<open>
  The divisor that each solver takes the reciprocal of, as the source computes it:
  \<^verbatim>\<open>1 - ratio + maintainanceRate\<close> for a long and
  \<^verbatim>\<open>ratio - 1 - maintainanceRate\<close> for a short target liquidation price, with
  \<^verbatim>\<open>ratio = targetLiquidationPrice / openPrice\<close>, and
  \<^verbatim>\<open>riskPercentage / 100 + maintainanceRate\<close> for a target risk percentage.
\<close>

definition liquidation_denominator ::
    "number \<Rightarrow> number \<Rightarrow> PositionType \<Rightarrow> number option \<Rightarrow> number" where
  "liquidation_denominator =
     (\<lambda>openPrice targetLiquidationPrice positionType maintainanceRate'.
        let maintainanceRate = nullish maintainanceRate' (Fin 0.005);
            ratio = targetLiquidationPrice / openPrice
        in if positionType = long then Fin 1 - ratio + maintainanceRate
           else ratio - Fin 1 - maintainanceRate)"

definition risk_denominator :: "number \<Rightarrow> number option \<Rightarrow> number" where
  "risk_denominator =
     (\<lambda>riskPercentage maintainanceRate'.
        riskPercentage / Fin 100 + nullish maintainanceRate' (Fin 0.005))"

text \<open>
  The formula of the specification for the leverage of a target risk percentage,
  \<open>1 / (riskPercentage/100 + maintenanceRate)\<close> floored at 1, read over the reals.
\<close>

definition leverageFromRiskPercentage_spec :: "real \<Rightarrow> real \<Rightarrow> real" where
  "leverageFromRiskPercentage_spec risk rate = max 1 (1 / (risk / 100 + rate))"

section \<open>Binary64 arithmetic\<close>

text \<open>\<open>pow2 e\<close> is the real \<open>2^e\<close> for an integer \<open>e\<close>.\<close>

definition pow2 :: "int \<Rightarrow> real" where
  "pow2 e = (if 0 \<le> e then 2 ^ nat e else 1 / 2 ^ nat (- e))"

text \<open>
  The binade of a positive real \<open>a\<close>: the integer \<open>e\<close> with \<open>2^e \<le> a < 2^(e+1)\<close>
  (\<open>binade_bounds\<close>, \<open>binade_unique\<close>), computed from the bit length of the integer
  part of \<open>a\<close>, or of \<open>1 / a\<close> when \<open>a < 1\<close>.
\<close>

definition binade :: "real \<Rightarrow> int" where
  "binade a = (if 1 \<le> a then bitlen \<lfloor>a\<rfloor> - 1 else - bitlen (\<lceil>1 / a\<rceil> - 1))"

text \<open>Rounding to the nearest integer, a tie to the even one.\<close>

definition round_half_even :: "real \<Rightarrow> int" where
  "round_half_even t =
     (let f = \<lfloor>t\<rfloor> in
      if t - of_int f < 1 / 2 then f
      else if 1 / 2 < t - of_int f then f + 1
      else if even f then f else f + 1)"

text \<open>
  Rounding of a real that is not zero to binary64, to nearest with ties to even. In
  the binade \<open>e\<close> of \<open>\<bar>x\<bar>\<close> the doubles are the multiples of \<open>2^(e - 52)\<close> (53
  significant bits); below \<open>2^(- 1022)\<close> (the subnormal range) they are the multiples
  of \<open>2^(- 1074)\<close>. A result of magnitude \<open>2^1024\<close> or more overflows to the infinity
  of the sign of \<open>x\<close>, and a result of magnitude 0 is the zero of the sign of \<open>x\<close>.
\<close>

definition round64 :: "real \<Rightarrow> number" where
  "round64 x =
     (let e = max (binade \<bar>x\<bar>) (- 1022);
          q = pow2 (e - 52);
          n = round_half_even (\<bar>x\<bar> / q);
          y = of_int n * q
      in if pow2 1024 \<le> y then signed_inf (x < 0)
         else signed_fin (x < 0) (if x < 0 then - y else y))"

text \<open>
  The second stage on a number: a finite exact result that is not zero is rounded, a
  zero keeps its sign, and the infinities and NaN stay as they are.
\<close>

fun round_number :: "number \<Rightarrow> number" where
  "round_number (Fin x) = (if x = 0 then Fin 0 else round64 x)"
| "round_number a = a"

text \<open>The binary64 operations of the running code: the exact result, rounded.\<close>

definition add64 :: "number \<Rightarrow> number \<Rightarrow> number" where
  "add64 a b = round_number (a + b)"

definition sub64 :: "number \<Rightarrow> number \<Rightarrow> number" where
  "sub64 a b = round_number (a - b)"

definition mul64 :: "number \<Rightarrow> number \<Rightarrow> number" where
  "mul64 a b = round_number (a * b)"

definition div64 :: "number \<Rightarrow> number \<Rightarrow> number" where
  "div64 a b = round_number (a / b)"

text \<open>A decimal literal of the source text denotes the double nearest to it.\<close>

definition lit64 :: "real \<Rightarrow> number" where
  "lit64 x = round_number (Fin x)"

text \<open>
  \<^verbatim>\<open>calculateContract\<close> once more, line by line, with the binary64 operations in
  place of the exact ones: what the function computes when it runs.
\<close>

definition calculateContract64 :: "ContractParams \<Rightarrow> CalculationResult" where
  "calculateContract64 params =
     (let maintainanceRate = nullish (maintainanceRate params) (lit64 0.005);
          openFeeRate = nullish (openFee params) (lit64 0.0002);
          closeFeeRate = nullish (closeFee params) (lit64 0.0002);
          fundingRate = nullish (fundingRate params) (lit64 0);
          fundingPeriodHours = nullish (fundingPeriodHours params) (lit64 8);
          positionSize = mul64 (margin params) (leverage params);
          positionSizeInCoin = div64 positionSize (openPrice params);
          openFeeAmount = mul64 positionSize openFeeRate;
          closeFeeAmount = mul64 positionSize closeFeeRate;
          totalFeeAmount = add64 openFeeAmount closeFeeAmount;
          liquidationPrice =
            (if positionType params = long
             then mul64 (openPrice params)
                    (add64 (sub64 (lit64 1) (div64 (lit64 1) (leverage params))) maintainanceRate)
             else mul64 (openPrice params)
                    (sub64 (add64 (lit64 1) (div64 (lit64 1) (leverage params))) maintainanceRate));
          priceChange = Math_abs (sub64 liquidationPrice (openPrice params));
          riskPercentage = mul64 (div64 priceChange (openPrice params)) (lit64 100);
          maxLoss = margin params;
          fundingFeePerPeriod = mul64 positionSize fundingRate;
          fundingFeePerDay = mul64 (div64 fundingFeePerPeriod fundingPeriodHours) (lit64 24);
          breakEvenPrice =
            (if positionType params = long
             then mul64 (openPrice params)
                    (add64 (lit64 1) (mul64 (div64 totalFeeAmount positionSize) (lit64 1.1)))
             else mul64 (openPrice params)
                    (sub64 (lit64 1) (mul64 (div64 totalFeeAmount positionSize) (lit64 1.1))));
          profitAtPrice = (\<lambda>price.
            if positionType params = long
            then sub64 (mul64 (sub64 price (openPrice params)) positionSizeInCoin) totalFeeAmount
            else sub64 (mul64 (sub64 (openPrice params) price) positionSizeInCoin) totalFeeAmount);
          profitPercentAtPrice = (\<lambda>price.
            let profit = profitAtPrice price in mul64 (div64 profit (margin params)) (lit64 100));
          liquidationPricePercent =
            mul64 (div64 (sub64 liquidationPrice (openPrice params)) (openPrice params)) (lit64 100)
      in \<lparr> positionSize = positionSize,
           positionSizeInCoin = positionSizeInCoin,
           liquidationPrice = liquidationPrice,
           liquidationPricePercent = liquidationPricePercent,
           riskPercentage = riskPercentage,
           maxLoss = maxLoss,
           openFeeAmount = openFeeAmount,
           closeFeeAmount = closeFeeAmount,
           totalFeeAmount = totalFeeAmount,
           fundingFeePerPeriod = fundingFeePerPeriod,
           fundingFeePerDay = fundingFeePerDay,
           breakEvenPrice = breakEvenPrice,
           profitAtPrice = profitAtPrice,
           profitPercentAtPrice = profitPercentAtPrice \<rparr>)"

text \<open>
  The parameters of the example as doubles: the rates are the doubles nearest to 0.005
  and 0.0002 (what \<^verbatim>\<open>0.5 / 100\<close> and \<^verbatim>\<open>0.02 / 100\<close> give in \<^verbatim>\<open>Home.tsx\<close>).
\<close>

definition example_params64 :: ContractParams where
  "example_params64 =
     \<lparr> openPrice = Fin 60000, margin = Fin 20, leverage = Fin 5,
       marginMode = isolated, positionType = long,
       maintainanceRate = Some (lit64 0.005), openFee = Some (lit64 0.0002),
       closeFee = Some (lit64 0.0002), fundingRate = Some (Fin 0),
       fundingPeriodHours = None \<rparr>"

section \<open>Arithmetic on finite numbers\<close>

text \<open>
  On finite operands the operations are the operations of the reals, a division
  provided that the divisor is not a zero.
\<close>

lemma is_fin_not_NaN [simp]: "is_fin a \<Longrightarrow> a \<noteq> NaN"
  by auto

lemma is_fin_not_inf [simp]: "is_fin a \<Longrightarrow> \<not> is_inf a"
  by (cases a) auto

lemma is_zero_val: "is_fin a \<Longrightarrow> is_zero a = (val a = 0)"
  by (cases a) auto

lemma is_fin_uminus [simp]: "is_fin a \<Longrightarrow> is_fin (- a)"
  by (cases a) auto

lemma val_uminus [simp]: "is_fin a \<Longrightarrow> val (- a) = - val a"
  by (cases a) auto

lemma is_fin_plus [simp]: "is_fin a \<Longrightarrow> is_fin b \<Longrightarrow> is_fin (a + b)"
  by (cases a; cases b) (auto simp: plus_number_def)

lemma val_plus [simp]: "is_fin a \<Longrightarrow> is_fin b \<Longrightarrow> val (a + b) = val a + val b"
  by (cases a; cases b) (auto simp: plus_number_def)

lemma is_fin_minus [simp]: "is_fin a \<Longrightarrow> is_fin b \<Longrightarrow> is_fin (a - b)"
  by (simp add: minus_number_def)

lemma val_minus [simp]: "is_fin a \<Longrightarrow> is_fin b \<Longrightarrow> val (a - b) = val a - val b"
  by (simp add: minus_number_def)

lemma is_fin_signed_fin [simp]: "is_fin (signed_fin s x)"
  by (simp add: signed_fin_def)

lemma val_signed_fin [simp]: "val (signed_fin s x) = x"
  by (simp add: signed_fin_def)

lemma is_fin_times [simp]: "is_fin a \<Longrightarrow> is_fin b \<Longrightarrow> is_fin (a * b)"
  by (simp add: times_number_def)

lemma val_times [simp]: "is_fin a \<Longrightarrow> is_fin b \<Longrightarrow> val (a * b) = val a * val b"
  by (simp add: times_number_def)

lemma is_fin_divide [simp]: "is_fin a \<Longrightarrow> is_fin b \<Longrightarrow> val b \<noteq> 0 \<Longrightarrow> is_fin (a / b)"
  by (simp add: divide_number_def is_zero_val)

lemma val_divide [simp]: "is_fin a \<Longrightarrow> is_fin b \<Longrightarrow> val b \<noteq> 0 \<Longrightarrow> val (a / b) = val a / val b"
  by (simp add: divide_number_def is_zero_val)

lemma is_fin_Math_abs [simp]: "is_fin a \<Longrightarrow> is_fin (Math_abs a)"
  by (cases a) auto

lemma val_Math_abs [simp]: "is_fin a \<Longrightarrow> val (Math_abs a) = \<bar>val a\<bar>"
  by (cases a) auto

lemma less_eq_fin: "is_fin a \<Longrightarrow> is_fin b \<Longrightarrow> (a \<le> b) = (val a \<le> val b)"
  by (cases a; cases b) (auto simp: less_eq_number_def)

lemma less_fin: "is_fin a \<Longrightarrow> is_fin b \<Longrightarrow> (a < b) = (val a < val b)"
  by (cases a; cases b) (auto simp: less_number_def)

lemma strict_eq_fin: "is_fin a \<Longrightarrow> is_fin b \<Longrightarrow> strict_eq a b = (val a = val b)"
  by (cases a; cases b) (auto simp: strict_eq_def)

lemma is_fin_Math_max [simp]: "is_fin a \<Longrightarrow> is_fin b \<Longrightarrow> is_fin (Math_max a b)"
  by (simp add: Math_max_def)

lemma val_Math_max [simp]: "is_fin a \<Longrightarrow> is_fin b \<Longrightarrow> val (Math_max a b) = max (val a) (val b)"
  by (cases a; cases b) (auto simp: Math_max_def less_number_def)

section \<open>The fields of the result\<close>

lemma positionSize_calc: "positionSize (calculateContract p) = margin p * leverage p"
  by (simp add: calculateContract_def Let_def)

lemma positionSizeInCoin_calc:
  "positionSizeInCoin (calculateContract p) = margin p * leverage p / openPrice p"
  by (simp add: calculateContract_def Let_def)

lemma openFeeAmount_calc:
  "openFeeAmount (calculateContract p) = margin p * leverage p * nullish (openFee p) (Fin 0.0002)"
  by (simp add: calculateContract_def Let_def)

lemma closeFeeAmount_calc:
  "closeFeeAmount (calculateContract p) = margin p * leverage p * nullish (closeFee p) (Fin 0.0002)"
  by (simp add: calculateContract_def Let_def)

lemma totalFeeAmount_calc:
  "totalFeeAmount (calculateContract p) =
     openFeeAmount (calculateContract p) + closeFeeAmount (calculateContract p)"
  by (simp add: calculateContract_def Let_def)

lemma liquidationPrice_calc:
  "liquidationPrice (calculateContract p) =
     (if positionType p = long
      then openPrice p * (Fin 1 - Fin 1 / leverage p + nullish (maintainanceRate p) (Fin 0.005))
      else openPrice p * (Fin 1 + Fin 1 / leverage p - nullish (maintainanceRate p) (Fin 0.005)))"
  by (simp add: calculateContract_def Let_def)

lemma riskPercentage_calc:
  "riskPercentage (calculateContract p) =
     Math_abs (liquidationPrice (calculateContract p) - openPrice p) / openPrice p * Fin 100"
  by (simp add: calculateContract_def Let_def)

lemma liquidationPricePercent_calc:
  "liquidationPricePercent (calculateContract p) =
     (liquidationPrice (calculateContract p) - openPrice p) / openPrice p * Fin 100"
  by (simp add: calculateContract_def Let_def)

lemma maxLoss_calc: "maxLoss (calculateContract p) = margin p"
  by (simp add: calculateContract_def Let_def)

lemma breakEvenPrice_calc:
  "breakEvenPrice (calculateContract p) =
     (if positionType p = long
      then openPrice p * (Fin 1 + totalFeeAmount (calculateContract p) / positionSize (calculateContract p) * Fin 1.1)
      else openPrice p * (Fin 1 - totalFeeAmount (calculateContract p) / positionSize (calculateContract p) * Fin 1.1))"
  by (simp add: calculateContract_def Let_def)

lemma profitAtPrice_calc:
  "profitAtPrice (calculateContract p) price =
     (if positionType p = long
      then (price - openPrice p) * positionSizeInCoin (calculateContract p) - totalFeeAmount (calculateContract p)
      else (openPrice p - price) * positionSizeInCoin (calculateContract p) - totalFeeAmount (calculateContract p))"
  by (simp add: calculateContract_def Let_def)

lemmas calc_fields = positionSize_calc positionSizeInCoin_calc openFeeAmount_calc
  closeFeeAmount_calc totalFeeAmount_calc liquidationPrice_calc riskPercentage_calc
  liquidationPricePercent_calc maxLoss_calc breakEvenPrice_calc profitAtPrice_calc

lemma Fin_plus [simp]: "Fin x + Fin y = Fin (x + y)"
  by (simp add: plus_number_def)

lemma Fin_minus [simp]: "Fin x - Fin y = Fin (x - y)"
  by (simp add: plus_number_def minus_number_def)

lemma Fin_times: "x * y \<noteq> 0 \<or> (0 \<le> x \<and> 0 \<le> y) \<Longrightarrow> Fin x * Fin y = Fin (x * y)"
  by (auto simp add: times_number_def signed_fin_def)

lemma Fin_divide: "y \<noteq> 0 \<Longrightarrow> x / y \<noteq> 0 \<or> (0 \<le> x \<and> 0 < y) \<Longrightarrow> Fin x / Fin y = Fin (x / y)"
  by (auto simp add: divide_number_def signed_fin_def)

lemma finite_paramsD:
  assumes "finite_params p"
  shows "is_fin (openPrice p)" "is_fin (margin p)" "is_fin (leverage p)"
    "is_fin (nullish (maintainanceRate p) (Fin d1))"
    "is_fin (nullish (openFee p) (Fin d2))"
    "is_fin (nullish (closeFee p) (Fin d3))"
    "is_fin (nullish (fundingRate p) (Fin d4))"
    "is_fin (nullish (fundingPeriodHours p) (Fin d5))"
  using assms
  by (auto simp: finite_params_def elim!: fin_opt.elims)

lemma finite_params_example: "finite_params example_params"
  by (simp add: finite_params_def example_params_def)

lemma finite_params_positionType [simp]:
  "finite_params (p\<lparr>positionType := t\<rparr>) = finite_params p"
  by (simp add: finite_params_def)

section \<open>Zeros, infinities and the floor at 1\<close>

lemmas number_defs = plus_number_def minus_number_def times_number_def divide_number_def
  signed_fin_def signed_inf_def

lemma positive_fin: "is_fin a \<Longrightarrow> Fin 0 < a \<Longrightarrow> \<exists>x. a = Fin x \<and> 0 < x"
  by (cases a) (auto simp: less_number_def)

lemma zero_fin: "is_fin a \<Longrightarrow> val a = 0 \<Longrightarrow> a = Fin 0 \<or> a = NegZero"
  by (cases a) auto

text \<open>The liquidation price and the two percentages when the leverage is a zero.\<close>

lemma liquidation_zero_leverage:
  assumes "is_fin m" and "0 < x"
  shows "Fin x * (Fin 1 - Fin 1 / Fin 0 + m) = NegInf"
    and "Fin x * (Fin 1 + Fin 1 / Fin 0 - m) = PosInf"
    and "Fin x * (Fin 1 - Fin 1 / NegZero + m) = PosInf"
    and "Fin x * (Fin 1 + Fin 1 / NegZero - m) = NegInf"
  using assms by (cases m; simp add: number_defs)+

lemma percent_of_infinity:
  assumes "0 < x"
  shows "(PosInf - Fin x) / Fin x * Fin 100 = PosInf"
    and "(NegInf - Fin x) / Fin x * Fin 100 = NegInf"
    and "Math_abs (PosInf - Fin x) / Fin x * Fin 100 = PosInf"
    and "Math_abs (NegInf - Fin x) / Fin x * Fin 100 = PosInf"
  using assms by (simp_all add: number_defs)

lemma liquidation_denominator_eq:
  "liquidation_denominator op t pt m =
     (if pt = long then Fin 1 - t / op + nullish m (Fin 0.005)
      else t / op - Fin 1 - nullish m (Fin 0.005))"
  by (simp add: liquidation_denominator_def Let_def)

lemma risk_denominator_eq:
  "risk_denominator r m = r / Fin 100 + nullish m (Fin 0.005)"
  by (simp add: risk_denominator_def)

lemma solver_liquidation_denominator:
  "calculateLeverageFromLiquidationPrice op t pt m =
     Math_max (Fin 1) (Fin 1 / liquidation_denominator op t pt m)"
  by (simp add: calculateLeverageFromLiquidationPrice_def liquidation_denominator_eq Let_def)

lemma solver_risk_denominator:
  "calculateLeverageFromRiskPercentage r pt m =
     Math_max (Fin 1) (Fin 1 / risk_denominator r m)"
  by (simp add: calculateLeverageFromRiskPercentage_def risk_denominator_eq Let_def)

lemma reciprocal_cases:
  "Fin 1 / NaN = NaN" "Fin 1 / Fin 0 = PosInf" "Fin 1 / NegZero = NegInf"
  "Fin 1 / PosInf = Fin 0" "Fin 1 / NegInf = NegZero"
  "x \<noteq> 0 \<Longrightarrow> Fin 1 / Fin x = Fin (1 / x)"
  by (simp_all add: number_defs)

lemma floor_cases:
  "Math_max (Fin 1) NaN = NaN" "Math_max (Fin 1) PosInf = PosInf"
  "Math_max (Fin 1) NegInf = Fin 1" "Math_max (Fin 1) NegZero = Fin 1"
  "Math_max (Fin 1) (Fin y) = Fin (max 1 y)"
  by (auto simp add: Math_max_def less_number_def)

lemma floor_at_one:
  "Math_max (Fin 1) (Fin 1 / d) =
     (if d = NaN then NaN
      else if d = Fin 0 then PosInf
      else if is_fin d \<and> 0 < val d then Fin (max 1 (1 / val d))
      else Fin 1)"
  by (cases d) (auto simp add: reciprocal_cases floor_cases max_def field_simps)

lemma floor_properties:
  "(d \<noteq> NaN \<longrightarrow> Fin 1 \<le> Math_max (Fin 1) (Fin 1 / d)) \<and>
   (d < Fin 0 \<or> d = NegZero \<longrightarrow> Math_max (Fin 1) (Fin 1 / d) = Fin 1) \<and>
   (d = Fin 0 \<longrightarrow> Math_max (Fin 1) (Fin 1 / d) = PosInf) \<and>
   (d = NaN \<longrightarrow> Math_max (Fin 1) (Fin 1 / d) = NaN)"
  by (cases d) (auto simp add: floor_at_one less_eq_number_def less_number_def)

section \<open>The solver applied to the computed liquidation price\<close>

lemma liquidation_denominator_roundtrip:
  assumes "finite_params p" and "Fin 0 < openPrice p" and "Fin 1 \<le> leverage p"
  shows "is_fin (liquidation_denominator (openPrice p) (liquidationPrice (calculateContract p))
           (positionType p) (maintainanceRate p))"
    and "val (liquidation_denominator (openPrice p) (liquidationPrice (calculateContract p))
           (positionType p) (maintainanceRate p)) =
         (if positionType p = long then 1 / val (leverage p)
          else 1 / val (leverage p) - 2 * val (nullish (maintainanceRate p) (Fin 0.005)))"
proof -
  note fp = finite_paramsD [OF assms(1)]
  have op: "0 < val (openPrice p)"
    using assms(2) fp(1) by (simp add: less_fin)
  have lev: "1 \<le> val (leverage p)"
    using assms(3) fp(3) by (simp add: less_eq_fin)
  then have nz: "val (leverage p) \<noteq> 0" by simp
  have liq: "is_fin (liquidationPrice (calculateContract p))"
    using nz by (simp add: liquidationPrice_calc fp)
  show "is_fin (liquidation_denominator (openPrice p) (liquidationPrice (calculateContract p))
           (positionType p) (maintainanceRate p))"
    using op liq by (simp add: liquidation_denominator_eq fp)
  show "val (liquidation_denominator (openPrice p) (liquidationPrice (calculateContract p))
           (positionType p) (maintainanceRate p)) =
         (if positionType p = long then 1 / val (leverage p)
          else 1 / val (leverage p) - 2 * val (nullish (maintainanceRate p) (Fin 0.005)))"
    using op nz liq
    by (simp add: liquidation_denominator_eq fp liquidationPrice_calc field_simps)
qed

text \<open>For a long position the solver gives the leverage back.\<close>

lemma long_roundtrip:
  assumes "finite_params p" and "positionType p = long"
    and "Fin 0 < openPrice p" and "Fin 1 \<le> leverage p"
  shows "strict_eq
           (calculateLeverageFromLiquidationPrice (openPrice p)
              (liquidationPrice (calculateContract p)) long (maintainanceRate p))
           (leverage p)"
proof -
  note fp = finite_paramsD [OF assms(1)]
  note d = liquidation_denominator_roundtrip [OF assms(1,3,4)]
  have lev: "1 \<le> val (leverage p)"
    using assms(4) fp(3) by (simp add: less_eq_fin)
  have dv: "val (liquidation_denominator (openPrice p) (liquidationPrice (calculateContract p))
           long (maintainanceRate p)) = 1 / val (leverage p)"
    using d(2) assms(2) by simp
  have df: "is_fin (liquidation_denominator (openPrice p) (liquidationPrice (calculateContract p))
           long (maintainanceRate p))"
    using d(1) assms(2) by simp
  show ?thesis
    using lev dv df fp(3)
    by (simp add: solver_liquidation_denominator strict_eq_fin)
qed

text \<open>
  For a short position the solver subtracts the maintenance rate once more where the
  inverse of the formula adds it back: it returns
  \<open>1 / (1 / leverage - 2 * maintainanceRate)\<close>, floored at 1.
\<close>

lemma short_roundtrip_value:
  assumes "finite_params p" and "positionType p = short"
    and "Fin 0 < openPrice p" and "Fin 1 \<le> leverage p"
    and "1 / val (leverage p) \<noteq> 2 * val (nullish (maintainanceRate p) (Fin 0.005))"
  shows "strict_eq
           (calculateLeverageFromLiquidationPrice (openPrice p)
              (liquidationPrice (calculateContract p)) short (maintainanceRate p))
           (Fin (max 1 (1 / (1 / val (leverage p)
                               - 2 * val (nullish (maintainanceRate p) (Fin 0.005))))))"
proof -
  note fp = finite_paramsD [OF assms(1)]
  note d = liquidation_denominator_roundtrip [OF assms(1,3,4)]
  have dv: "val (liquidation_denominator (openPrice p) (liquidationPrice (calculateContract p))
           short (maintainanceRate p)) =
        1 / val (leverage p) - 2 * val (nullish (maintainanceRate p) (Fin 0.005))"
    using d(2) assms(2) by simp
  have df: "is_fin (liquidation_denominator (openPrice p) (liquidationPrice (calculateContract p))
           short (maintainanceRate p))"
    using d(1) assms(2) by simp
  have "val (liquidation_denominator (openPrice p) (liquidationPrice (calculateContract p))
           short (maintainanceRate p)) \<noteq> 0"
    using dv assms(5) by simp
  then show ?thesis
    using dv df
    by (simp add: solver_liquidation_denominator strict_eq_fin)
qed

section \<open>Rounding to binary64\<close>

lemma pow2_powi: "pow2 e = 2 powi e"
  by (simp add: pow2_def power_int_def inverse_eq_divide power_one_over)

lemma pow2_pos [simp]: "0 < pow2 e"
  by (simp add: pow2_def)

lemma pow2_add: "pow2 (a + b) = pow2 a * pow2 b"
  by (simp add: pow2_powi power_int_add)

lemma pow2_nat: "pow2 (int n) = 2 ^ n"
  by (simp add: pow2_def)

lemma pow2_strict_mono: "a < b \<Longrightarrow> pow2 a < pow2 b"
  by (simp add: pow2_powi power_int_strict_increasing)

lemma pow2_mono: "a \<le> b \<Longrightarrow> pow2 a \<le> pow2 b"
  by (simp add: pow2_powi power_int_increasing)

lemma pow2_less_iff [simp]: "pow2 a < pow2 b \<longleftrightarrow> a < b"
proof
  assume "pow2 a < pow2 b"
  then show "a < b"
    using pow2_mono [of b a] by (cases "a < b") auto
qed (rule pow2_strict_mono)

lemma pow2_le_iff [simp]: "pow2 a \<le> pow2 b \<longleftrightarrow> a \<le> b"
  unfolding not_less [symmetric] by simp

lemma pow2_numeral [simp]:
  "pow2 (numeral k) = 2 ^ numeral k"
  "pow2 (- numeral k) = 1 / 2 ^ numeral k"
  "pow2 0 = 1" "pow2 1 = 2" "pow2 (- 1) = 1 / 2"
  by (simp_all add: pow2_def)

lemma bitlen_unique:
  assumes "2 ^ n \<le> m" and "m < 2 ^ Suc n"
  shows "bitlen m = int n + 1"
proof -
  have "(0::int) < 2 ^ n" by simp
  then have pos: "0 < m"
    using assms(1) by linarith
  note b = bitlen_bounds [OF pos]
  have "1 \<le> bitlen m"
    using pos bitlen_eq_zero_iff [of m] bitlen_nonneg [of m] by linarith
  have "(2::int) ^ nat (bitlen m - 1) < 2 ^ Suc n"
    using b assms(2) by linarith
  then have u: "nat (bitlen m - 1) < Suc n"
    by (simp only: power_strict_increasing_iff [of "2::int"] one_less_numeral_iff semiring_norm)
  have "(2::int) ^ n < 2 ^ nat (bitlen m)"
    using b assms(1) by linarith
  then have l: "n < nat (bitlen m)"
    by (simp only: power_strict_increasing_iff [of "2::int"] one_less_numeral_iff semiring_norm)
  from u l \<open>1 \<le> bitlen m\<close> show ?thesis by linarith
qed

lemma binade_unique:
  assumes "pow2 e \<le> a" and "a < pow2 (e + 1)"
  shows "binade a = e"
proof (cases "1 \<le> a")
  case True
  then have "pow2 0 < pow2 (e + 1)"
    using assms(2) by (simp add: pow2_def)
  then have e: "0 \<le> e"
    unfolding pow2_less_iff by simp
  define n where "n = nat e"
  have en: "e = int n" using e by (simp add: n_def)
  have "pow2 e = 2 ^ n" "pow2 (e + 1) = 2 ^ Suc n"
    by (simp_all add: pow2_def en nat_add_distrib)
  then have "(2::real) ^ n \<le> a" "a < 2 ^ Suc n"
    using assms by simp_all
  then have "2 ^ n \<le> \<lfloor>a\<rfloor>" "\<lfloor>a\<rfloor> < 2 ^ Suc n"
    by (simp_all add: le_floor_iff floor_less_iff)
  then have "bitlen \<lfloor>a\<rfloor> = int n + 1"
    by (rule bitlen_unique)
  then show ?thesis
    using True by (simp add: binade_def en)
next
  case False
  have apos: "0 < a"
    using assms(1) pow2_pos [of e] by linarith
  have "pow2 e < pow2 0"
    using assms(1) False by (simp add: pow2_def)
  then have e: "e < 0"
    unfolding pow2_less_iff .
  define n where "n = nat (- e - 1)"
  have en: "e = - int n - 1" using e by (simp add: n_def)
  have p1: "pow2 e = 1 / 2 ^ Suc n"
    using e by (simp add: pow2_def en nat_add_distrib)
  have p2: "pow2 (e + 1) = 1 / 2 ^ n"
    by (simp add: pow2_def en)
  have "1 / a \<le> 2 ^ Suc n"
    using assms(1) apos unfolding p1 by (simp add: field_simps)
  moreover have "2 ^ n < 1 / a"
    using assms(2) apos unfolding p2 by (simp add: field_simps)
  ultimately have "\<lceil>1 / a\<rceil> \<le> 2 ^ Suc n" "2 ^ n < \<lceil>1 / a\<rceil>"
    by (simp_all add: ceiling_le_iff less_ceiling_iff)
  then have "2 ^ n \<le> \<lceil>1 / a\<rceil> - 1" "\<lceil>1 / a\<rceil> - 1 < 2 ^ Suc n"
    by linarith+
  then have "bitlen (\<lceil>1 / a\<rceil> - 1) = int n + 1"
    by (rule bitlen_unique)
  then show ?thesis
    using False by (simp add: binade_def en)
qed

lemma round64_binade:
  assumes "pow2 e \<le> \<bar>x\<bar>" and "\<bar>x\<bar> < pow2 (e + 1)" and "- 1022 \<le> e"
  shows "round64 x =
     (let y = of_int (round_half_even (\<bar>x\<bar> / pow2 (e - 52))) * pow2 (e - 52)
      in if pow2 1024 \<le> y then signed_inf (x < 0)
         else signed_fin (x < 0) (if x < 0 then - y else y))"
  using assms(3) by (simp add: round64_def binade_unique [OF assms(1,2)] max_def Let_def)

lemma binade_bounds:
  assumes "0 < a"
  shows "pow2 (binade a) \<le> a" and "a < pow2 (binade a + 1)"
proof -
  have "pow2 (binade a) \<le> a \<and> a < pow2 (binade a + 1)"
  proof (cases "1 \<le> a")
    case True
    then have m: "0 < \<lfloor>a\<rfloor>" by simp
    note b = bitlen_bounds [OF m]
    have b1: "1 \<le> bitlen \<lfloor>a\<rfloor>"
      using m bitlen_eq_zero_iff [of "\<lfloor>a\<rfloor>"] bitlen_nonneg [of "\<lfloor>a\<rfloor>"] by linarith
    have e: "binade a = bitlen \<lfloor>a\<rfloor> - 1"
      using True by (simp add: binade_def)
    have p: "pow2 (binade a) = 2 ^ nat (bitlen \<lfloor>a\<rfloor> - 1)"
      "pow2 (binade a + 1) = 2 ^ nat (bitlen \<lfloor>a\<rfloor>)"
      using b1 by (simp_all add: e pow2_def)
    have "2 ^ nat (bitlen \<lfloor>a\<rfloor> - 1) \<le> \<lfloor>a\<rfloor>"
      using b by simp
    then have lo: "2 ^ nat (bitlen \<lfloor>a\<rfloor> - 1) \<le> a"
      by (simp add: le_floor_iff)
    have "\<lfloor>a\<rfloor> < 2 ^ nat (bitlen \<lfloor>a\<rfloor>)"
      using b by simp
    then have hi: "a < 2 ^ nat (bitlen \<lfloor>a\<rfloor>)"
      by (simp add: floor_less_iff)
    from lo hi show ?thesis by (simp add: p)
  next
    case False
    define c where "c = \<lceil>1 / a\<rceil> - 1"
    have y: "1 < 1 / a"
      using False assms by (simp add: field_simps)
    then have c: "0 < c"
      unfolding c_def by (simp add: less_ceiling_iff)
    note b = bitlen_bounds [OF c]
    have b1: "1 \<le> bitlen c"
      using c bitlen_eq_zero_iff [of c] bitlen_nonneg [of c] by linarith
    have e: "binade a = - bitlen c"
      using False by (simp add: binade_def c_def)
    have p: "pow2 (binade a) = 1 / 2 ^ nat (bitlen c)"
      "pow2 (binade a + 1) = 1 / 2 ^ nat (bitlen c - 1)"
      using b1 by (simp_all add: e pow2_def)
    have "real_of_int c < 1 / a"
      unfolding c_def using less_ceiling_iff [of "\<lceil>1 / a\<rceil> - 1" "1 / a"] by linarith
    moreover have "2 ^ nat (bitlen c - 1) \<le> c"
      using b by simp
    then have "(2::real) ^ nat (bitlen c - 1) \<le> of_int c"
      by (metis of_int_le_iff of_int_numeral of_int_power)
    ultimately have "2 ^ nat (bitlen c - 1) < 1 / a"
      by linarith
    then have hi: "a < 1 / 2 ^ nat (bitlen c - 1)"
      using assms by (simp add: field_simps)
    have "1 / a \<le> of_int (c + 1)"
      unfolding c_def by simp
    moreover have "c + 1 \<le> 2 ^ nat (bitlen c)"
      using b by simp
    then have "real_of_int (c + 1) \<le> 2 ^ nat (bitlen c)"
      by (metis of_int_le_iff of_int_numeral of_int_power)
    ultimately have "1 / a \<le> 2 ^ nat (bitlen c)"
      by linarith
    then have lo: "1 / 2 ^ nat (bitlen c) \<le> a"
      using assms by (simp add: field_simps)
    from lo hi show ?thesis by (simp add: p)
  qed
  then show "pow2 (binade a) \<le> a" and "a < pow2 (binade a + 1)"
    by simp_all
qed

lemma round_half_even_of_int [simp]: "round_half_even (of_int n) = n"
  by (simp add: round_half_even_def)

lemma round_half_even_lower:
  assumes "of_int lo \<le> t"
  shows "lo \<le> round_half_even t"
proof -
  have "lo \<le> \<lfloor>t\<rfloor>"
    using assms by (simp add: le_floor_iff)
  then show ?thesis
    by (auto simp add: round_half_even_def Let_def)
qed

lemma round_half_even_upper:
  assumes "t \<le> of_int hi"
  shows "round_half_even t \<le> hi"
proof -
  have f: "\<lfloor>t\<rfloor> \<le> hi"
    using assms by (simp add: floor_le_iff)
  show ?thesis
  proof (cases "t = of_int \<lfloor>t\<rfloor>")
    case True
    then have "round_half_even t = \<lfloor>t\<rfloor>"
      by (simp add: round_half_even_def)
    then show ?thesis using f by simp
  next
    case False
    then have "of_int \<lfloor>t\<rfloor> < t"
      using of_int_floor_le [of t] by linarith
    then have "of_int \<lfloor>t\<rfloor> < (of_int hi :: real)"
      using assms by linarith
    then have "\<lfloor>t\<rfloor> < hi" by simp
    then show ?thesis
      by (auto simp add: round_half_even_def Let_def)
  qed
qed

lemma pow2_nonzero [simp]: "pow2 e \<noteq> 0"
  by (simp add: pow2_def)

lemma pow2_52: "2 ^ 52 * pow2 (e - 52) = pow2 e"
proof -
  have "pow2 e = pow2 (52 + (e - 52))"
    by (rule arg_cong [of _ _ pow2]) simp
  also have "\<dots> = pow2 52 * pow2 (e - 52)" by (rule pow2_add)
  also have "pow2 52 = 2 ^ 52" by (rule pow2_numeral)
  finally show ?thesis by (rule sym)
qed

lemma pow2_53: "2 ^ 53 * pow2 (e - 52) = pow2 (e + 1)"
proof -
  have "pow2 (e + 1) = pow2 (53 + (e - 52))"
    by (rule arg_cong [of _ _ pow2]) simp
  also have "\<dots> = pow2 53 * pow2 (e - 52)" by (rule pow2_add)
  also have "pow2 53 = 2 ^ 53" by (rule pow2_numeral)
  finally show ?thesis by (rule sym)
qed

text \<open>A positive multiple \<open>n * 2^(e - 52)\<close> with \<open>n\<close> of at most 53 bits is a double.\<close>

lemma round64_representable:
  assumes e: "- 1022 \<le> e" and n: "0 < n" "n \<le> 2 ^ 53"
    and normal: "e = - 1022 \<or> 2 ^ 52 \<le> n"
    and range: "of_int n * pow2 (e - 52) < pow2 1024"
    and t: "\<bar>t\<bar> = of_int n * pow2 (e - 52)"
  shows "round64 t = Fin t"
proof -
  define q where "q = pow2 (e - 52)"
  have q: "0 < q" by (simp add: q_def)
  have tq: "\<bar>t\<bar> = of_int n * q" using t by (simp add: q_def)
  have tpos: "0 < \<bar>t\<bar>" using n(1) q tq by simp
  have fin: "round64 t = Fin t"
    if r: "round_half_even (\<bar>t\<bar> / pow2 (e' - 52)) * pow2 (e' - 52) = \<bar>t\<bar>"
      and e': "max (binade \<bar>t\<bar>) (- 1022) = e'" for e'
  proof -
    have "\<not> pow2 1024 \<le> \<bar>t\<bar>"
      using range t by simp
    then show ?thesis
      using r tpos by (auto simp add: round64_def e' Let_def signed_fin_def)
  qed
  consider (sub) "n < 2 ^ 52" | (mid) "2 ^ 52 \<le> n" "n < 2 ^ 53" | (top) "n = 2 ^ 53"
    using n(2) by linarith
  then show ?thesis
  proof cases
    case sub
    then have e1022: "e = - 1022" using normal by simp
    have "of_int n < (2::real) ^ 52"
      using sub by (metis of_int_less_iff of_int_numeral of_int_power)
    then have "of_int n * q < 2 ^ 52 * q"
      using q by (rule mult_strict_right_mono)
    then have "\<bar>t\<bar> < pow2 e"
      unfolding tq q_def pow2_52 .
    then have "pow2 (binade \<bar>t\<bar>) < pow2 (- 1022)"
      using binade_bounds(1) [OF tpos] unfolding e1022 by linarith
    then have "binade \<bar>t\<bar> < - 1022"
      unfolding pow2_less_iff .
    then have m: "max (binade \<bar>t\<bar>) (- 1022) = e"
      using e1022 by simp
    have "\<bar>t\<bar> / pow2 (e - 52) = of_int n"
      using q by (simp add: tq q_def)
    then have "round_half_even (\<bar>t\<bar> / pow2 (e - 52)) * pow2 (e - 52) = \<bar>t\<bar>"
      by (simp add: tq q_def)
    then show ?thesis using m by (rule fin)
  next
    case mid
    have "(2::real) ^ 52 \<le> of_int n" "of_int n < (2::real) ^ 53"
      using mid by (metis of_int_le_iff of_int_numeral of_int_power)
        (metis mid(2) of_int_less_iff of_int_numeral of_int_power)
    then have "2 ^ 52 * q \<le> of_int n * q" "of_int n * q < 2 ^ 53 * q"
      using q by (simp_all only: mult_le_cancel_right_pos mult_less_cancel_right_pos)
    then have "pow2 e \<le> \<bar>t\<bar>" "\<bar>t\<bar> < pow2 (e + 1)"
      unfolding tq q_def pow2_52 pow2_53 .
    then have "binade \<bar>t\<bar> = e"
      by (rule binade_unique)
    then have m: "max (binade \<bar>t\<bar>) (- 1022) = e"
      using e by simp
    have "\<bar>t\<bar> / pow2 (e - 52) = of_int n"
      using q by (simp add: tq q_def)
    then have "round_half_even (\<bar>t\<bar> / pow2 (e - 52)) * pow2 (e - 52) = \<bar>t\<bar>"
      by (simp add: tq q_def)
    then show ?thesis using m by (rule fin)
  next
    case top
    have "real_of_int n = 2 ^ 53"
      unfolding top by simp
    then have tt: "\<bar>t\<bar> = pow2 (e + 1)"
      unfolding tq q_def using pow2_53 [of e] by (simp only:)
    have "pow2 (e + 1) \<le> \<bar>t\<bar>" "\<bar>t\<bar> < pow2 (e + 1 + 1)"
      by (simp_all add: tt)
    then have "binade \<bar>t\<bar> = e + 1"
      by (rule binade_unique)
    then have m: "max (binade \<bar>t\<bar>) (- 1022) = e + 1"
      using e by simp
    have p: "of_int (2 ^ 52) * pow2 (e + 1 - 52) = \<bar>t\<bar>"
      unfolding tt using pow2_52 [of "e + 1"] by simp
    then have "\<bar>t\<bar> / pow2 (e + 1 - 52) = of_int (2 ^ 52)"
      unfolding p [symmetric] by simp
    then have "round_half_even (\<bar>t\<bar> / pow2 (e + 1 - 52)) = 2 ^ 52"
      by (simp only: round_half_even_of_int)
    then have "round_half_even (\<bar>t\<bar> / pow2 (e + 1 - 52)) * pow2 (e + 1 - 52) = \<bar>t\<bar>"
      using p by (simp only:)
    then show ?thesis using m by (rule fin)
  qed
qed

text \<open>Rounding is idempotent: a finite result of \<open>round64\<close> that is not zero is a
  double, and so is its negation.\<close>

lemma round64_idem:
  assumes "round64 x = Fin t" and "t \<noteq> 0"
  shows "round64 t = Fin t" and "round64 (- t) = Fin (- t)"
proof -
  define e where "e = max (binade \<bar>x\<bar>) (- 1022)"
  define q where "q = pow2 (e - 52)"
  define n where "n = round_half_even (\<bar>x\<bar> / q)"
  have q: "0 < q" by (simp add: q_def)
  have r: "round64 x =
      (if pow2 1024 \<le> of_int n * q then signed_inf (x < 0)
       else signed_fin (x < 0) (if x < 0 then - (of_int n * q) else of_int n * q))"
    by (simp add: round64_def Let_def e_def q_def n_def)
  have range: "of_int n * q < pow2 1024"
    using assms(1) unfolding r by (auto simp add: signed_inf_def split: if_splits)
  have abs_t: "\<bar>t\<bar> = \<bar>of_int n * q\<bar>"
    using assms(1) range unfolding r
    by (auto simp add: signed_fin_def split: if_splits)
  have "0 \<le> \<bar>x\<bar> / q" using q by simp
  then have "0 \<le> n"
    unfolding n_def using round_half_even_lower [of 0 "\<bar>x\<bar> / q"] by simp
  moreover have "n \<noteq> 0"
    using abs_t assms(2) by auto
  ultimately have n0: "0 < n" by simp
  then have t: "\<bar>t\<bar> = of_int n * q"
    using abs_t q by (simp add: abs_mult)
  have xpos: "0 < \<bar>x\<bar>"
  proof (rule ccontr)
    assume "\<not> 0 < \<bar>x\<bar>"
    then have "\<bar>x\<bar> / q = of_int 0" by simp
    then have "n = 0" unfolding n_def by (simp only: round_half_even_of_int)
    then show False using n0 by simp
  qed
  have e: "- 1022 \<le> e" by (simp add: e_def)
  have "binade \<bar>x\<bar> + 1 \<le> e + 1" by (simp add: e_def)
  then have "pow2 (binade \<bar>x\<bar> + 1) \<le> pow2 (e + 1)"
    unfolding pow2_le_iff .
  then have "\<bar>x\<bar> < pow2 (e + 1)"
    using binade_bounds(2) [OF xpos] by linarith
  then have "\<bar>x\<bar> < 2 ^ 53 * q"
    unfolding q_def pow2_53 .
  then have "\<bar>x\<bar> / q < 2 ^ 53"
    using q by (simp only: pos_divide_less_eq)
  then have "\<bar>x\<bar> / q \<le> of_int (2 ^ 53)" by simp
  then have n53: "n \<le> 2 ^ 53"
    unfolding n_def by (rule round_half_even_upper)
  have normal: "e = - 1022 \<or> 2 ^ 52 \<le> n"
  proof (cases "e = - 1022")
    case False
    then have "e = binade \<bar>x\<bar>"
      by (simp add: e_def max_def split: if_splits)
    then have "pow2 e \<le> \<bar>x\<bar>"
      using binade_bounds(1) [OF xpos] by simp
    then have "2 ^ 52 * q \<le> \<bar>x\<bar>"
      unfolding q_def pow2_52 .
    then have "2 ^ 52 \<le> \<bar>x\<bar> / q"
      using q by (simp only: pos_le_divide_eq)
    then have "of_int (2 ^ 52) \<le> \<bar>x\<bar> / q" by simp
    then have "2 ^ 52 \<le> n"
      unfolding n_def by (rule round_half_even_lower)
    then show ?thesis ..
  qed simp
  show "round64 t = Fin t"
    using e n0 n53 normal range [unfolded q_def] t [unfolded q_def]
    by (rule round64_representable)
  have "\<bar>- t\<bar> = of_int n * pow2 (e - 52)"
    using t by (simp add: q_def)
  with e n0 n53 normal range [unfolded q_def] show "round64 (- t) = Fin (- t)"
    by (rule round64_representable)
qed

section \<open>The contract calculator in binary64 arithmetic\<close>

lemma add64_Fin: "x + y \<noteq> 0 \<Longrightarrow> add64 (Fin x) (Fin y) = round64 (x + y)"
  by (simp add: add64_def)

lemma sub64_Fin: "x - y \<noteq> 0 \<Longrightarrow> sub64 (Fin x) (Fin y) = round64 (x - y)"
  by (simp add: sub64_def)

lemma mul64_Fin: "x \<noteq> 0 \<Longrightarrow> y \<noteq> 0 \<Longrightarrow> mul64 (Fin x) (Fin y) = round64 (x * y)"
  by (simp add: mul64_def times_number_def signed_fin_def)

lemma div64_Fin: "x \<noteq> 0 \<Longrightarrow> y \<noteq> 0 \<Longrightarrow> div64 (Fin x) (Fin y) = round64 (x / y)"
  by (simp add: div64_def divide_number_def signed_fin_def)

lemma lit64_integers [simp]:
  "lit64 0 = Fin 0" "lit64 1 = Fin 1" "lit64 8 = Fin 8" "lit64 24 = Fin 24" "lit64 100 = Fin 100"
proof -
  show "lit64 0 = Fin 0" by (simp add: lit64_def)
  show "lit64 1 = Fin 1"
    by (simp add: lit64_def) (subst round64_binade [where e = "0"];
        simp add: round_half_even_def signed_fin_def Let_def)
  show "lit64 8 = Fin 8"
    by (simp add: lit64_def) (subst round64_binade [where e = "3"];
        simp add: round_half_even_def signed_fin_def Let_def)
  show "lit64 24 = Fin 24"
    by (simp add: lit64_def) (subst round64_binade [where e = "4"];
        simp add: round_half_even_def signed_fin_def Let_def)
  show "lit64 100 = Fin 100"
    by (simp add: lit64_def) (subst round64_binade [where e = "6"];
        simp add: round_half_even_def signed_fin_def Let_def)
qed

lemma lit64_rate: "lit64 0.005 = Fin (5764607523034235 / 2 ^ 60)"
  by (simp add: lit64_def)
     (subst round64_binade [where e = "- 8"];
      simp add: round_half_even_def signed_fin_def Let_def)

lemma lit64_fee: "lit64 0.0002 = Fin (7378697629483821 / 2 ^ 65)"
  by (simp add: lit64_def)
     (subst round64_binade [where e = "- 13"];
      simp add: round_half_even_def signed_fin_def Let_def)

lemma liquidationPrice64_calc:
  "liquidationPrice (calculateContract64 p) =
     (if positionType p = long
      then mul64 (openPrice p)
             (add64 (sub64 (Fin 1) (div64 (Fin 1) (leverage p)))
                (nullish (maintainanceRate p) (lit64 0.005)))
      else mul64 (openPrice p)
             (sub64 (add64 (Fin 1) (div64 (Fin 1) (leverage p)))
                (nullish (maintainanceRate p) (lit64 0.005))))"
  by (simp add: calculateContract64_def Let_def)

lemma liquidationPricePercent64_calc:
  "liquidationPricePercent (calculateContract64 p) =
     mul64 (div64 (sub64 (liquidationPrice (calculateContract64 p)) (openPrice p)) (openPrice p))
       (Fin 100)"
  by (simp add: calculateContract64_def Let_def)

lemma finite_params_example64: "finite_params example_params64"
  by (simp only: finite_params_def example_params64_def ContractParams.simps lit64_rate lit64_fee)
    simp

lemma finite_params_leverage:
  "finite_params p \<Longrightarrow> finite_params (p\<lparr>leverage := Fin x\<rparr>)"
  by (simp add: finite_params_def)

lemma openPrice_example64 [simp]: "openPrice example_params64 = Fin 60000"
  by (simp add: example_params64_def)

lemma positionSizeInCoin64_calc:
  "positionSizeInCoin (calculateContract64 p) = div64 (mul64 (margin p) (leverage p)) (openPrice p)"
  by (simp add: calculateContract64_def Let_def)

lemma totalFeeAmount64_calc:
  "totalFeeAmount (calculateContract64 p) =
     add64 (mul64 (mul64 (margin p) (leverage p)) (nullish (openFee p) (lit64 0.0002)))
           (mul64 (mul64 (margin p) (leverage p)) (nullish (closeFee p) (lit64 0.0002)))"
  by (simp add: calculateContract64_def Let_def)

lemma profitAtPrice64_calc:
  "profitAtPrice (calculateContract64 p) price =
     (if positionType p = long
      then sub64 (mul64 (sub64 price (openPrice p)) (positionSizeInCoin (calculateContract64 p)))
             (totalFeeAmount (calculateContract64 p))
      else sub64 (mul64 (sub64 (openPrice p) price) (positionSizeInCoin (calculateContract64 p)))
             (totalFeeAmount (calculateContract64 p)))"
  by (simp add: calculateContract64_def Let_def)

text \<open>A number minus itself is the positive zero, and a zero times a finite number is
  a zero.\<close>

lemma sub64_self: "is_fin a \<Longrightarrow> sub64 a a = Fin 0"
  by (cases a) (simp_all add: sub64_def number_defs)

lemma mul64_zero: "is_fin c \<Longrightarrow> is_zero (mul64 (Fin 0) c)"
  by (cases c) (simp_all add: mul64_def number_defs)

text \<open>A finite sum that is not zero is a double, hence a zero minus it is its negation.\<close>

lemma add64_representable:
  assumes "add64 a b = Fin t" and "t \<noteq> 0"
  shows "round64 (- t) = Fin (- t)"
proof (cases "a + b")
  case (Fin s)
  then have "round64 s = Fin t"
    using assms by (simp add: add64_def split: if_splits)
  then show ?thesis
    using assms(2) by (rule round64_idem(2))
qed (use assms in \<open>simp_all add: add64_def\<close>)

lemma zero_minus_total:
  assumes "is_zero z" and "fee = add64 a b" and "fee \<noteq> NaN"
  shows "strict_eq (sub64 z fee) (- fee)"
proof (cases fee)
  case (Fin t)
  show ?thesis
  proof (cases "t = 0")
    case True
    then show ?thesis
      using assms(1) Fin by (cases z) (simp_all add: sub64_def number_defs strict_eq_def)
  next
    case False
    have "round64 (- t) = Fin (- t)"
      using assms(2) Fin False add64_representable [of a b t] by simp
    then show ?thesis
      using assms(1) Fin False by (cases z) (simp_all add: sub64_def number_defs strict_eq_def)
  qed
next
  case NaN
  then show ?thesis using assms(3) by simp
qed (use assms(1) in \<open>cases z; simp add: sub64_def number_defs strict_eq_def\<close>)+

lemma positionSize64_calc:
  "positionSize (calculateContract64 p) = mul64 (margin p) (leverage p)"
  by (simp add: calculateContract64_def Let_def)

lemma openFeeAmount64_calc:
  "openFeeAmount (calculateContract64 p) =
     mul64 (mul64 (margin p) (leverage p)) (nullish (openFee p) (lit64 0.0002))"
  by (simp add: calculateContract64_def Let_def)

lemma closeFeeAmount64_calc:
  "closeFeeAmount (calculateContract64 p) =
     mul64 (mul64 (margin p) (leverage p)) (nullish (closeFee p) (lit64 0.0002))"
  by (simp add: calculateContract64_def Let_def)

lemma riskPercentage64_calc:
  "riskPercentage (calculateContract64 p) =
     mul64 (div64 (Math_abs (sub64 (liquidationPrice (calculateContract64 p)) (openPrice p)))
              (openPrice p)) (Fin 100)"
  by (simp add: calculateContract64_def Let_def)

lemma maxLoss64_calc: "maxLoss (calculateContract64 p) = margin p"
  by (simp add: calculateContract64_def Let_def)

lemmas calc64_fields = positionSize64_calc positionSizeInCoin64_calc openFeeAmount64_calc
  closeFeeAmount64_calc totalFeeAmount64_calc liquidationPrice64_calc riskPercentage64_calc
  liquidationPricePercent64_calc maxLoss64_calc

text \<open>
  The scenario of the example in binary64: the values are 100, 0.0016666666666666668,
  48300, 19.5, 20 and the doubles nearest to 0.02, 0.02 and 0.04.
\<close>

lemma example_values_binary64:
  "positionSize (calculateContract64 example_params64) = Fin 100"
  "positionSizeInCoin (calculateContract64 example_params64) = Fin (7686143364045647 / 2 ^ 62)"
  "liquidationPrice (calculateContract64 example_params64) = Fin 48300"
  "riskPercentage (calculateContract64 example_params64) = Fin (39 / 2 ^ 1)"
  "maxLoss (calculateContract64 example_params64) = Fin 20"
  "openFeeAmount (calculateContract64 example_params64) = Fin (5764607523034235 / 2 ^ 58)"
  "closeFeeAmount (calculateContract64 example_params64) = Fin (5764607523034235 / 2 ^ 58)"
  "totalFeeAmount (calculateContract64 example_params64) = Fin (5764607523034235 / 2 ^ 57)"
proof -
  have e1: "mul64 (Fin 20) (Fin 5) = Fin 100"
    by (simp add: mul64_Fin)
       (subst round64_binade [where e = "6"];
        simp add: round_half_even_def signed_fin_def Let_def)
  have e2: "div64 (Fin 100) (Fin 60000) = Fin (7686143364045647 / 2 ^ 62)"
    by (simp add: div64_Fin)
       (subst round64_binade [where e = "- 10"];
        simp add: round_half_even_def signed_fin_def Let_def)
  have e3: "mul64 (Fin 100) (Fin (7378697629483821 / 2 ^ 65)) = Fin (5764607523034235 / 2 ^ 58)"
    by (simp add: mul64_Fin)
       (subst round64_binade [where e = "- 6"];
        simp add: round_half_even_def signed_fin_def Let_def)
  have e4: "add64 (Fin (5764607523034235 / 2 ^ 58)) (Fin (5764607523034235 / 2 ^ 58)) = Fin (5764607523034235 / 2 ^ 57)"
    by (simp add: add64_Fin)
       (subst round64_binade [where e = "- 5"];
        simp add: round_half_even_def signed_fin_def Let_def)
  have e5: "div64 (Fin 1) (Fin 5) = Fin (3602879701896397 / 2 ^ 54)"
    by (simp add: div64_Fin)
       (subst round64_binade [where e = "- 3"];
        simp add: round_half_even_def signed_fin_def Let_def)
  have e6: "sub64 (Fin 1) (Fin (3602879701896397 / 2 ^ 54)) = Fin (3602879701896397 / 2 ^ 52)"
    by (simp add: sub64_Fin)
       (subst round64_binade [where e = "- 1"];
        simp add: round_half_even_def signed_fin_def Let_def)
  have e7: "add64 (Fin (3602879701896397 / 2 ^ 52)) (Fin (5764607523034235 / 2 ^ 60)) = Fin (7250795400066499 / 2 ^ 53)"
    by (simp add: add64_Fin)
       (subst round64_binade [where e = "- 1"];
        simp add: round_half_even_def signed_fin_def Let_def)
  have e8: "mul64 (Fin 60000) (Fin (7250795400066499 / 2 ^ 53)) = Fin 48300"
    by (simp add: mul64_Fin)
       (subst round64_binade [where e = "15"];
        simp add: round_half_even_def signed_fin_def Let_def)
  have e9: "sub64 (Fin 48300) (Fin 60000) = Fin (- 11700)"
    by (simp add: sub64_Fin)
       (subst round64_binade [where e = "13"];
        simp add: round_half_even_def signed_fin_def Let_def)
  have e9': "Math_abs (Fin (- 11700)) = Fin 11700"
    by simp
  have e10: "div64 (Fin 11700) (Fin 60000) = Fin (3512807709348987 / 2 ^ 54)"
    by (simp add: div64_Fin)
       (subst round64_binade [where e = "- 3"];
        simp add: round_half_even_def signed_fin_def Let_def)
  have e11: "mul64 (Fin (3512807709348987 / 2 ^ 54)) (Fin 100) = Fin (39 / 2 ^ 1)"
    by (simp add: mul64_Fin)
       (subst round64_binade [where e = "4"];
        simp add: round_half_even_def signed_fin_def Let_def)
  note steps = calc64_fields example_params64_def ContractParams.simps nullish.simps
    lit64_rate lit64_fee simp_thms if_True e1 e2 e3 e4 e5 e6 e7 e8 e9 e9' e10 e11
  show "positionSize (calculateContract64 example_params64) = Fin 100"
    by (simp only: steps)
  show "positionSizeInCoin (calculateContract64 example_params64) = Fin (7686143364045647 / 2 ^ 62)"
    by (simp only: steps)
  show "liquidationPrice (calculateContract64 example_params64) = Fin 48300"
    by (simp only: steps)
  show "riskPercentage (calculateContract64 example_params64) = Fin (39 / 2 ^ 1)"
    by (simp only: steps)
  show "maxLoss (calculateContract64 example_params64) = Fin 20"
    by (simp only: steps)
  show "openFeeAmount (calculateContract64 example_params64) = Fin (5764607523034235 / 2 ^ 58)"
    by (simp only: steps)
  show "closeFeeAmount (calculateContract64 example_params64) = Fin (5764607523034235 / 2 ^ 58)"
    by (simp only: steps)
  show "totalFeeAmount (calculateContract64 example_params64) = Fin (5764607523034235 / 2 ^ 57)"
    by (simp only: steps)
qed

text \<open>Rounding never gives NaN, and keeps a positive real from falling below zero.\<close>

lemma round64_not_NaN [simp]: "round64 x \<noteq> NaN"
  by (simp add: round64_def Let_def signed_inf_def signed_fin_def)

lemma round_number_NaN [simp]: "round_number a = NaN \<longleftrightarrow> a = NaN"
  by (cases a) simp_all

lemma round64_nonneg:
  assumes "0 < x"
  shows "Fin 0 \<le> round64 x"
proof -
  define q where "q = pow2 (max (binade \<bar>x\<bar>) (- 1022) - 52)"
  have q: "0 < q" by (simp add: q_def)
  then have "0 \<le> \<bar>x\<bar> / q" by simp
  then have "0 \<le> round_half_even (\<bar>x\<bar> / q)"
    using round_half_even_lower [of 0 "\<bar>x\<bar> / q"] by simp
  then have "0 \<le> of_int (round_half_even (\<bar>x\<bar> / q)) * q"
    using q by simp
  then show ?thesis
    using assms
    by (simp add: round64_def Let_def q_def signed_inf_def signed_fin_def less_eq_number_def)
qed

lemma div64_nonneg:
  assumes "Fin 0 \<le> a" and "0 < x"
  shows "Fin 0 \<le> div64 a (Fin x)"
proof (cases a)
  case (Fin v)
  then have v: "0 \<le> v" using assms(1) by (simp add: less_eq_number_def)
  show ?thesis
  proof (cases "v = 0")
    case True
    then show ?thesis
      using Fin assms(2) by (simp add: div64_def number_defs less_eq_number_def)
  next
    case False
    then have "0 < v / x" using v assms(2) by simp
    then have "Fin 0 \<le> round64 (v / x)" by (rule round64_nonneg)
    then show ?thesis
      using Fin False assms(2) by (simp add: div64_Fin)
  qed
qed (use assms in \<open>simp_all add: div64_def number_defs less_eq_number_def\<close>)

lemma mul64_nonneg:
  assumes "Fin 0 \<le> a" and "0 < x"
  shows "Fin 0 \<le> mul64 a (Fin x)"
proof (cases a)
  case (Fin v)
  then have v: "0 \<le> v" using assms(1) by (simp add: less_eq_number_def)
  show ?thesis
  proof (cases "v = 0")
    case True
    then show ?thesis
      using Fin assms(2) by (simp add: mul64_def number_defs less_eq_number_def)
  next
    case False
    then have "0 < v * x" using v assms(2) by simp
    then have "Fin 0 \<le> round64 (v * x)" by (rule round64_nonneg)
    then show ?thesis
      using Fin False assms(2) by (simp add: mul64_Fin)
  qed
qed (use assms in \<open>simp_all add: mul64_def number_defs less_eq_number_def\<close>)

lemma Math_abs_nonneg: "a \<noteq> NaN \<Longrightarrow> Fin 0 \<le> Math_abs a"
  by (cases a) (simp_all add: less_eq_number_def)

text \<open>With a finite operand, a sum or a difference is NaN only if the other operand is;
  so is a product with a finite factor that is not zero, and the reciprocal of a finite
  number is never NaN.\<close>

lemma plus_not_NaN:
  "is_fin a \<Longrightarrow> b \<noteq> NaN \<Longrightarrow> a + b \<noteq> NaN"
  "is_fin a \<Longrightarrow> b \<noteq> NaN \<Longrightarrow> b + a \<noteq> NaN"
  "is_fin a \<Longrightarrow> b \<noteq> NaN \<Longrightarrow> a - b \<noteq> NaN"
  "is_fin a \<Longrightarrow> b \<noteq> NaN \<Longrightarrow> b - a \<noteq> NaN"
  by (cases a; cases b; simp add: number_defs)+

lemma times_not_NaN: "x \<noteq> 0 \<Longrightarrow> b \<noteq> NaN \<Longrightarrow> Fin x * b \<noteq> NaN"
  by (cases b) (simp_all add: number_defs)

lemma reciprocal_not_NaN: "is_fin a \<Longrightarrow> Fin 1 / a \<noteq> NaN"
  by (cases a) (simp_all add: number_defs)

text \<open>
  The risk percentage of the running code is not negative either: for real parameters
  with a positive open price, in binary64 arithmetic.
\<close>

lemma risk_not_negative_binary64:
  assumes "finite_params p" and "Fin 0 < openPrice p"
  shows "Fin 0 \<le> riskPercentage (calculateContract64 p)"
proof -
  note fp = finite_paramsD [OF assms(1)]
  obtain x where x: "openPrice p = Fin x" "0 < x"
    using positive_fin [OF fp(1) assms(2)] by blast
  have m: "is_fin (nullish (maintainanceRate p) (lit64 0.005))"
    using fp(4) [of "5764607523034235 / 2 ^ 60"] by (simp only: lit64_rate)
  have one: "is_fin (Fin 1)" by simp
  have r: "div64 (Fin 1) (leverage p) \<noteq> NaN"
    using fp(3) by (simp add: div64_def reciprocal_not_NaN)
  have "liquidationPrice (calculateContract64 p) \<noteq> NaN"
    using x(2) m r
    by (simp add: liquidationPrice64_calc x(1) mul64_def add64_def sub64_def
        times_not_NaN plus_not_NaN)
  then have "sub64 (liquidationPrice (calculateContract64 p)) (Fin x) \<noteq> NaN"
    by (simp add: sub64_def plus_not_NaN)
  then have "Fin 0 \<le> Math_abs (sub64 (liquidationPrice (calculateContract64 p)) (Fin x))"
    by (rule Math_abs_nonneg)
  then have "Fin 0 \<le> div64 (Math_abs (sub64 (liquidationPrice (calculateContract64 p)) (Fin x)))
      (Fin x)"
    using x(2) by (rule div64_nonneg)
  then have "Fin 0 \<le> mul64 (div64 (Math_abs (sub64 (liquidationPrice (calculateContract64 p))
      (Fin x))) (Fin x)) (Fin 100)"
    by (rule mul64_nonneg) simp
  then show ?thesis
    by (simp add: riskPercentage64_calc x(1))
qed

text \<open>The margin mode does not reach the result of the running code either.\<close>

lemma marginMode_noninterference_binary64:
  "calculateContract64 (p\<lparr>marginMode := isolated\<rparr>) =
     calculateContract64 (p\<lparr>marginMode := cross\<rparr>)"
  by (simp add: calculateContract64_def Let_def)

lemma calculateContract64_positionType:
  "positionSizeInCoin (calculateContract64 (p\<lparr>positionType := t\<rparr>)) =
     positionSizeInCoin (calculateContract64 p)"
  "totalFeeAmount (calculateContract64 (p\<lparr>positionType := t\<rparr>)) =
     totalFeeAmount (calculateContract64 p)"
  by (simp_all add: positionSizeInCoin64_calc totalFeeAmount64_calc)

section \<open>The claims\<close>

text \<open>
  C1. The round trip through the liquidation price: the solver, applied to the
  liquidation price that \<open>calculateContract\<close> computes, is to return the leverage.
  It does for a long position (\<open>long_roundtrip\<close>). It does not for a short one: at
  the short position of the example (open price 60000, leverage 5, maintenance rate
  0.005) the liquidation price is 71700, the divisor of the solver is 0.19 (positive)
  and not 1/5, and the solver returns 100/19, which is not the leverage 5.
\<close>

theorem short_roundtrip_fails:
  "Fin 0 < openPrice (example_params\<lparr>positionType := short\<rparr>) \<and>
   Fin 1 \<le> leverage (example_params\<lparr>positionType := short\<rparr>) \<and>
   leverage (example_params\<lparr>positionType := short\<rparr>) = Fin 5 \<and>
   maintainanceRate (example_params\<lparr>positionType := short\<rparr>) = Some (Fin 0.005) \<and>
   liquidationPrice (calculateContract (example_params\<lparr>positionType := short\<rparr>))
     = Fin 71700 \<and>
   liquidation_denominator (Fin 60000) (Fin 71700) short (Some (Fin 0.005)) = Fin 0.19 \<and>
   calculateLeverageFromLiquidationPrice (Fin 60000) (Fin 71700) short (Some (Fin 0.005))
     = Fin (100 / 19) \<and>
   \<not> strict_eq
       (calculateLeverageFromLiquidationPrice
          (openPrice (example_params\<lparr>positionType := short\<rparr>))
          (liquidationPrice (calculateContract (example_params\<lparr>positionType := short\<rparr>)))
          short
          (maintainanceRate (example_params\<lparr>positionType := short\<rparr>)))
       (leverage (example_params\<lparr>positionType := short\<rparr>))"
  by (simp add: example_params_def liquidationPrice_calc solver_liquidation_denominator
      liquidation_denominator_eq Fin_times Fin_divide floor_cases less_number_def
      less_eq_number_def strict_eq_def)

text \<open>
  C2. The floor at 1 of the inverse solvers, as the code has it: whenever the divisor
  of the inverse formula is not NaN, each solver returns a value that is at least 1;
  whenever the divisor is negative or the negative zero, it returns exactly 1;
  when the divisor is the positive zero, it returns the positive infinity; and when
  the divisor is NaN, it returns NaN.
\<close>

theorem inverse_solvers_floor:
  "(liquidation_denominator op t pt m \<noteq> NaN \<longrightarrow>
      Fin 1 \<le> calculateLeverageFromLiquidationPrice op t pt m) \<and>
   (liquidation_denominator op t pt m < Fin 0 \<or> liquidation_denominator op t pt m = NegZero \<longrightarrow>
      calculateLeverageFromLiquidationPrice op t pt m = Fin 1) \<and>
   (liquidation_denominator op t pt m = Fin 0 \<longrightarrow>
      calculateLeverageFromLiquidationPrice op t pt m = PosInf) \<and>
   (liquidation_denominator op t pt m = NaN \<longrightarrow>
      calculateLeverageFromLiquidationPrice op t pt m = NaN) \<and>
   (risk_denominator r m' \<noteq> NaN \<longrightarrow>
      Fin 1 \<le> calculateLeverageFromRiskPercentage r pt' m') \<and>
   (risk_denominator r m' < Fin 0 \<or> risk_denominator r m' = NegZero \<longrightarrow>
      calculateLeverageFromRiskPercentage r pt' m' = Fin 1) \<and>
   (risk_denominator r m' = Fin 0 \<longrightarrow>
      calculateLeverageFromRiskPercentage r pt' m' = PosInf) \<and>
   (risk_denominator r m' = NaN \<longrightarrow>
      calculateLeverageFromRiskPercentage r pt' m' = NaN)"
  using floor_properties [of "liquidation_denominator op t pt m"]
    floor_properties [of "risk_denominator r m'"]
  unfolding solver_liquidation_denominator solver_risk_denominator
  by blast

text \<open>
  The theorem at a target liquidation price of 110 for a short position opened at 100
  with maintenance rate 0.2 (divisor - 0.1, result 1), at a target risk of 19.5 percent
  with the default rate (divisor 0.2, result at least 1), at a long target equal to the
  open price with rate 0 (divisor 0, result infinite), and at a target risk of - 1
  percent (divisor - 0.005, result 1).
\<close>

theorem inverse_solvers_floor_witness:
  "liquidation_denominator (Fin 100) (Fin 110) short (Some (Fin 0.2)) < Fin 0 \<and>
   calculateLeverageFromLiquidationPrice (Fin 100) (Fin 110) short (Some (Fin 0.2)) = Fin 1 \<and>
   risk_denominator (Fin 19.5) None \<noteq> NaN \<and>
   Fin 1 \<le> calculateLeverageFromRiskPercentage (Fin 19.5) long None \<and>
   liquidation_denominator (Fin 100) (Fin 100) long (Some (Fin 0)) = Fin 0 \<and>
   calculateLeverageFromLiquidationPrice (Fin 100) (Fin 100) long (Some (Fin 0)) = PosInf \<and>
   risk_denominator (Fin (- 1)) None < Fin 0 \<and>
   calculateLeverageFromRiskPercentage (Fin (- 1)) short None = Fin 1"
proof -
  have d1: "liquidation_denominator (Fin 100) (Fin 110) short (Some (Fin 0.2)) < Fin 0"
    by (simp add: liquidation_denominator_eq Fin_divide less_number_def)
  have d2: "risk_denominator (Fin 19.5) None \<noteq> NaN"
    by (simp add: risk_denominator_eq Fin_divide)
  have d3: "liquidation_denominator (Fin 100) (Fin 100) long (Some (Fin 0)) = Fin 0"
    by (simp add: liquidation_denominator_eq Fin_divide)
  have d4: "risk_denominator (Fin (- 1)) None < Fin 0"
    by (simp add: risk_denominator_eq Fin_divide less_number_def)
  have "calculateLeverageFromLiquidationPrice (Fin 100) (Fin 110) short (Some (Fin 0.2)) = Fin 1"
    and "Fin 1 \<le> calculateLeverageFromRiskPercentage (Fin 19.5) long None"
    using inverse_solvers_floor [of "Fin 100" "Fin 110" short "Some (Fin 0.2)" "Fin 19.5" None long]
      d1 d2 by blast+
  moreover have
    "calculateLeverageFromLiquidationPrice (Fin 100) (Fin 100) long (Some (Fin 0)) = PosInf"
    and "calculateLeverageFromRiskPercentage (Fin (- 1)) short None = Fin 1"
    using inverse_solvers_floor [of "Fin 100" "Fin 100" long "Some (Fin 0)" "Fin (- 1)" None short]
      d3 d4 by blast+
  ultimately show ?thesis
    using d1 d2 d3 d4 by blast
qed

text \<open>
  C2 as it is stated fails where the divisor is zero: with a target liquidation price
  equal to the open price and maintenance rate 0, and with a target risk of 0 percent
  and maintenance rate 0, the divisor is the positive zero and the solver returns the
  positive infinity, not 1. With an open price and a target price of 0 the ratio is NaN
  and the result is NaN, which is not at least 1.
\<close>

theorem inverse_solvers_zero_denominator_counterexample:
  "liquidation_denominator (Fin 100) (Fin 100) long (Some (Fin 0)) = Fin 0 \<and>
   liquidation_denominator (Fin 100) (Fin 100) long (Some (Fin 0)) \<le> Fin 0 \<and>
   calculateLeverageFromLiquidationPrice (Fin 100) (Fin 100) long (Some (Fin 0)) = PosInf \<and>
   \<not> strict_eq (calculateLeverageFromLiquidationPrice (Fin 100) (Fin 100) long (Some (Fin 0)))
         (Fin 1) \<and>
   risk_denominator (Fin 0) (Some (Fin 0)) = Fin 0 \<and>
   risk_denominator (Fin 0) (Some (Fin 0)) \<le> Fin 0 \<and>
   calculateLeverageFromRiskPercentage (Fin 0) long (Some (Fin 0)) = PosInf \<and>
   \<not> strict_eq (calculateLeverageFromRiskPercentage (Fin 0) long (Some (Fin 0))) (Fin 1) \<and>
   calculateLeverageFromLiquidationPrice (Fin 0) (Fin 0) long None = NaN \<and>
   \<not> Fin 1 \<le> calculateLeverageFromLiquidationPrice (Fin 0) (Fin 0) long None"
  by (simp add: solver_liquidation_denominator solver_risk_denominator
      liquidation_denominator_eq risk_denominator_eq Fin_divide reciprocal_cases floor_cases
      strict_eq_def less_eq_number_def number_defs)

text \<open>
  C3. The concrete scenario: open price 60000, margin 20, leverage 5, long, isolated,
  maintenance rate 0.005, both fee rates 0.0002 and funding rate 0 give a position size
  of 100, a position in coins of 1/600 (0.0016667 to seven decimal places), a
  liquidation price of 48300, a risk percentage of 19.5, a maximal loss of 20, an
  opening and a closing fee of 0.02 each and a total fee of 0.04.
\<close>

theorem example_scenario_values:
  "positionSize (calculateContract example_params) = Fin 100 \<and>
   positionSizeInCoin (calculateContract example_params) = Fin (1 / 600) \<and>
   \<bar>1 / 600 - 0.0016667\<bar> < (0.00000005 :: real) \<and>
   liquidationPrice (calculateContract example_params) = Fin 48300 \<and>
   riskPercentage (calculateContract example_params) = Fin 19.5 \<and>
   maxLoss (calculateContract example_params) = Fin 20 \<and>
   openFeeAmount (calculateContract example_params) = Fin 0.02 \<and>
   closeFeeAmount (calculateContract example_params) = Fin 0.02 \<and>
   totalFeeAmount (calculateContract example_params) = Fin 0.04"
  by (simp add: calc_fields example_params_def Fin_times Fin_divide)

text \<open>
  C4. The margin mode does not interfere: two parameter records that differ in
  \<open>marginMode\<close> only give the same result, in every numeric field and in both
  closures (equal as functions), and the maximal loss is the margin for both modes.
\<close>

theorem marginMode_noninterference:
  "calculateContract (p\<lparr>marginMode := isolated\<rparr>) =
     calculateContract (p\<lparr>marginMode := cross\<rparr>) \<and>
   maxLoss (calculateContract (p\<lparr>marginMode := isolated\<rparr>)) = margin p \<and>
   maxLoss (calculateContract (p\<lparr>marginMode := cross\<rparr>)) = margin p"
  by (simp add: calculateContract_def Let_def)

text \<open>
  C5. The solver for a target risk percentage does not depend on the direction and is
  its formula: for every risk percentage, maintenance rate and position type the
  result is \<open>max(1, 1 / (riskPercentage/100 + maintenanceRate))\<close>, the same for long
  and short; for real arguments whose divisor is not zero the result is the real number
  that the formula of the specification gives.
\<close>

theorem leverage_from_risk_formula:
  "calculateLeverageFromRiskPercentage r long m = calculateLeverageFromRiskPercentage r short m \<and>
   calculateLeverageFromRiskPercentage r pt m =
     Math_max (Fin 1) (Fin 1 / (r / Fin 100 + nullish m (Fin 0.005))) \<and>
   (is_fin r \<and> fin_opt m \<and> val r / 100 + val (nullish m (Fin 0.005)) \<noteq> 0 \<longrightarrow>
      is_fin (calculateLeverageFromRiskPercentage r pt m) \<and>
      val (calculateLeverageFromRiskPercentage r pt m) =
        leverageFromRiskPercentage_spec (val r) (val (nullish m (Fin 0.005))))"
proof -
  have direction: "calculateLeverageFromRiskPercentage r long m =
      calculateLeverageFromRiskPercentage r short m"
    by (simp add: calculateLeverageFromRiskPercentage_def)
  have formula: "calculateLeverageFromRiskPercentage r pt m =
      Math_max (Fin 1) (Fin 1 / (r / Fin 100 + nullish m (Fin 0.005)))"
    by (simp add: calculateLeverageFromRiskPercentage_def Let_def)
  have reals: "is_fin (calculateLeverageFromRiskPercentage r pt m) \<and>
      val (calculateLeverageFromRiskPercentage r pt m) =
        leverageFromRiskPercentage_spec (val r) (val (nullish m (Fin 0.005)))"
    if "is_fin r" and "fin_opt m" and "val r / 100 + val (nullish m (Fin 0.005)) \<noteq> 0"
  proof -
    have fm: "is_fin (nullish m (Fin 0.005))"
      using that(2) by (cases m) simp_all
    show ?thesis
      using that(1,3) fm
      by (simp add: formula leverageFromRiskPercentage_spec_def)
  qed
  from direction formula reals show ?thesis by blast
qed

theorem leverage_from_risk_formula_witness:
  "is_fin (Fin 19.5) \<and> fin_opt None \<and>
   val (Fin 19.5) / 100 + val (nullish None (Fin 0.005)) \<noteq> 0 \<and>
   is_fin (calculateLeverageFromRiskPercentage (Fin 19.5) short None) \<and>
   val (calculateLeverageFromRiskPercentage (Fin 19.5) short None) =
     leverageFromRiskPercentage_spec 19.5 0.005 \<and>
   leverageFromRiskPercentage_spec 19.5 0.005 = 5 \<and>
   calculateLeverageFromRiskPercentage (Fin 19.5) long None =
     calculateLeverageFromRiskPercentage (Fin 19.5) short None"
  using leverage_from_risk_formula [of "Fin 19.5" None short]
  by (simp add: leverageFromRiskPercentage_spec_def)

text \<open>
  C6. The fee identity at the open price, for the running code: for real parameters
  with a positive open price, long or short, whose position in coins is finite and
  whose total fee is not NaN (neither \<open>margin * leverage\<close> nor its quotient by the
  open price overflowed, and the two fees are not infinities of opposite sign), the
  profit at the open price is the negated total fee, in binary64 arithmetic.
\<close>

theorem profit_at_open_price_is_minus_fees:
  assumes "finite_params p" and "Fin 0 < openPrice p"
    and "is_fin (positionSizeInCoin (calculateContract64 p))"
    and "totalFeeAmount (calculateContract64 p) \<noteq> NaN"
  shows "strict_eq (profitAtPrice (calculateContract64 p) (openPrice p))
                   (- totalFeeAmount (calculateContract64 p))"
proof -
  have op: "is_fin (openPrice p)"
    using assms(1) by (simp add: finite_params_def)
  have diff: "sub64 (openPrice p) (openPrice p) = Fin 0"
    using op by (rule sub64_self)
  have z: "is_zero (mul64 (Fin 0) (positionSizeInCoin (calculateContract64 p)))"
    using assms(3) by (rule mul64_zero)
  have "strict_eq
      (sub64 (mul64 (Fin 0) (positionSizeInCoin (calculateContract64 p)))
         (totalFeeAmount (calculateContract64 p)))
      (- totalFeeAmount (calculateContract64 p))"
    using z totalFeeAmount64_calc assms(4) by (rule zero_minus_total)
  then show ?thesis
    by (simp add: profitAtPrice64_calc diff)
qed

theorem profit_at_open_price_is_minus_fees_witness:
  "finite_params example_params64 \<and> Fin 0 < openPrice example_params64 \<and>
   is_fin (positionSizeInCoin (calculateContract64 example_params64)) \<and>
   totalFeeAmount (calculateContract64 example_params64) \<noteq> NaN \<and>
   strict_eq (profitAtPrice (calculateContract64 example_params64) (openPrice example_params64))
             (- totalFeeAmount (calculateContract64 example_params64)) \<and>
   strict_eq
     (profitAtPrice (calculateContract64 (example_params64\<lparr>positionType := short\<rparr>))
        (openPrice (example_params64\<lparr>positionType := short\<rparr>)))
     (- totalFeeAmount (calculateContract64 (example_params64\<lparr>positionType := short\<rparr>)))"
proof -
  have pos: "Fin 0 < openPrice example_params64"
    by (simp add: less_number_def)
  have coin: "is_fin (positionSizeInCoin (calculateContract64 example_params64))"
    by (simp add: example_values_binary64)
  have fee: "totalFeeAmount (calculateContract64 example_params64) \<noteq> NaN"
    by (simp add: example_values_binary64)
  have long: "strict_eq
      (profitAtPrice (calculateContract64 example_params64) (openPrice example_params64))
      (- totalFeeAmount (calculateContract64 example_params64))"
    using profit_at_open_price_is_minus_fees [OF finite_params_example64 pos coin fee] .
  have short: "strict_eq
      (profitAtPrice (calculateContract64 (example_params64\<lparr>positionType := short\<rparr>))
         (openPrice (example_params64\<lparr>positionType := short\<rparr>)))
      (- totalFeeAmount (calculateContract64 (example_params64\<lparr>positionType := short\<rparr>)))"
    using profit_at_open_price_is_minus_fees [of "example_params64\<lparr>positionType := short\<rparr>"]
      finite_params_example64 pos coin fee
    by (simp add: calculateContract64_positionType)
  show ?thesis
    using finite_params_example64 pos coin fee long short by blast
qed

text \<open>
  C6 as it is stated, for every real parameters with a positive open price, fails
  where the position size overflows: with margin \<open>2^1023\<close> and leverage 10 the
  position size and the position in coins are infinite, the profit at the open price
  is \<open>0 * Infinity - Infinity\<close>, that is NaN, and NaN equals nothing.
\<close>

theorem profit_at_open_price_overflow_counterexample:
  "finite_params (example_params64\<lparr>margin := Fin (2 ^ 1023), leverage := Fin 10\<rparr>) \<and>
   Fin 0 < openPrice (example_params64\<lparr>margin := Fin (2 ^ 1023), leverage := Fin 10\<rparr>) \<and>
   positionSize
     (calculateContract64 (example_params64\<lparr>margin := Fin (2 ^ 1023), leverage := Fin 10\<rparr>))
     = PosInf \<and>
   totalFeeAmount
     (calculateContract64 (example_params64\<lparr>margin := Fin (2 ^ 1023), leverage := Fin 10\<rparr>))
     = PosInf \<and>
   profitAtPrice
     (calculateContract64 (example_params64\<lparr>margin := Fin (2 ^ 1023), leverage := Fin 10\<rparr>))
     (openPrice (example_params64\<lparr>margin := Fin (2 ^ 1023), leverage := Fin 10\<rparr>))
     = NaN \<and>
   \<not> strict_eq
       (profitAtPrice
          (calculateContract64 (example_params64\<lparr>margin := Fin (2 ^ 1023), leverage := Fin 10\<rparr>))
          (openPrice (example_params64\<lparr>margin := Fin (2 ^ 1023), leverage := Fin 10\<rparr>)))
       (- totalFeeAmount
          (calculateContract64 (example_params64\<lparr>margin := Fin (2 ^ 1023), leverage := Fin 10\<rparr>)))"
proof -
  have o1: "mul64 (Fin (2 ^ 1023)) (Fin 10) = PosInf"
    by (simp add: mul64_Fin)
       (subst round64_binade [where e = "1026"];
        simp add: round_half_even_def signed_fin_def signed_inf_def Let_def)
  have o2: "div64 PosInf (Fin 60000) = PosInf"
    by (simp add: div64_def number_defs)
  have o3: "mul64 PosInf (Fin (7378697629483821 / 2 ^ 65)) = PosInf"
    by (simp add: mul64_def number_defs)
  have o4: "add64 PosInf PosInf = PosInf"
    by (simp add: add64_def number_defs)
  have o5: "sub64 (Fin 60000) (Fin 60000) = Fin 0"
    by (simp add: sub64_def number_defs)
  have o6: "mul64 (Fin 0) PosInf = NaN"
    by (simp add: mul64_def number_defs)
  have o7: "sub64 NaN PosInf = NaN"
    by (simp add: sub64_def number_defs)
  note steps = calc64_fields profitAtPrice64_calc example_params64_def ContractParams.simps
    nullish.simps lit64_rate lit64_fee simp_thms if_True o1 o2 o3 o4 o5 o6 o7
  have ps: "positionSize
     (calculateContract64 (example_params64\<lparr>margin := Fin (2 ^ 1023), leverage := Fin 10\<rparr>))
     = PosInf"
    by (simp only: steps)
  have fee: "totalFeeAmount
     (calculateContract64 (example_params64\<lparr>margin := Fin (2 ^ 1023), leverage := Fin 10\<rparr>))
     = PosInf"
    by (simp only: steps)
  have profit: "profitAtPrice
     (calculateContract64 (example_params64\<lparr>margin := Fin (2 ^ 1023), leverage := Fin 10\<rparr>))
     (openPrice (example_params64\<lparr>margin := Fin (2 ^ 1023), leverage := Fin 10\<rparr>))
     = NaN"
    by (simp only: steps)
  have fin: "finite_params (example_params64\<lparr>margin := Fin (2 ^ 1023), leverage := Fin 10\<rparr>)"
    using finite_params_example64 by (simp add: finite_params_def)
  show ?thesis
    unfolding ps fee profit using fin by (simp add: less_number_def strict_eq_def)
qed

text \<open>
  C7. The antisymmetry of long and short, in exact real arithmetic: for real parameters
  with a positive open price, the \<open>liquidationPricePercent\<close> of the long position is
  the negated \<open>liquidationPricePercent\<close> of the short position with the same numeric
  fields, when no operation rounds.
\<close>

theorem liquidationPricePercent_antisymmetric:
  assumes "finite_params p" and "Fin 0 < openPrice p"
  shows "strict_eq (liquidationPricePercent (calculateContract (p\<lparr>positionType := long\<rparr>)))
            (- liquidationPricePercent (calculateContract (p\<lparr>positionType := short\<rparr>)))"
proof -
  note fp = finite_paramsD [OF assms(1)]
  obtain x where x: "openPrice p = Fin x" "0 < x"
    using positive_fin [OF fp(1) assms(2)] by blast
  show ?thesis
  proof (cases "val (leverage p) = 0")
    case True
    then have "leverage p = Fin 0 \<or> leverage p = NegZero"
      using fp(3) by (rule zero_fin [rotated])
    then show ?thesis
      using x fp(4) [of "0.005"]
      by (auto simp add: liquidationPricePercent_calc liquidationPrice_calc
          liquidation_zero_leverage percent_of_infinity strict_eq_def)
  next
    case False
    have l: "is_fin (liquidationPrice (calculateContract (p\<lparr>positionType := long\<rparr>)))"
      "is_fin (liquidationPrice (calculateContract (p\<lparr>positionType := short\<rparr>)))"
      using False by (simp_all add: liquidationPrice_calc fp)
    show ?thesis
      using False x(2) l
      by (simp add: liquidationPricePercent_calc liquidationPrice_calc fp strict_eq_fin x(1)
          field_simps)
  qed
qed

theorem liquidationPricePercent_antisymmetric_witness:
  "finite_params example_params \<and> Fin 0 < openPrice example_params \<and>
   strict_eq
     (liquidationPricePercent (calculateContract (example_params\<lparr>positionType := long\<rparr>)))
     (- liquidationPricePercent (calculateContract (example_params\<lparr>positionType := short\<rparr>))) \<and>
   liquidationPricePercent (calculateContract (example_params\<lparr>positionType := short\<rparr>))
     = Fin 19.5"
proof -
  have pos: "Fin 0 < openPrice example_params"
    by (simp add: example_params_def less_number_def)
  have short: "liquidationPricePercent
      (calculateContract (example_params\<lparr>positionType := short\<rparr>)) = Fin 19.5"
    by (simp add: example_params_def liquidationPricePercent_calc liquidationPrice_calc
        Fin_times Fin_divide)
  show ?thesis
    using liquidationPricePercent_antisymmetric [OF finite_params_example pos]
      finite_params_example pos short
    by blast
qed

text \<open>
  C7 as it is stated fails for the running code, which rounds every operation: at open
  price 60000, leverage 3 and maintenance rate 0.005 the long percentage is
  \<open>- 4620880867666601 / 2^47\<close> (- 32.83333333333332) and the short percentage is
  \<open>4620880867666602 / 2^47\<close> (32.83333333333333), one unit in the last place apart.
\<close>

theorem liquidationPricePercent_rounding_counterexample:
  "finite_params (example_params64\<lparr>leverage := Fin 3\<rparr>) \<and>
   Fin 0 < openPrice (example_params64\<lparr>leverage := Fin 3\<rparr>) \<and>
   liquidationPricePercent
     (calculateContract64 (example_params64\<lparr>leverage := Fin 3, positionType := long\<rparr>))
     = Fin (- (4620880867666601 / 2 ^ 47)) \<and>
   liquidationPricePercent
     (calculateContract64 (example_params64\<lparr>leverage := Fin 3, positionType := short\<rparr>))
     = Fin (4620880867666602 / 2 ^ 47) \<and>
   \<not> strict_eq
       (liquidationPricePercent
          (calculateContract64 (example_params64\<lparr>leverage := Fin 3, positionType := long\<rparr>)))
       (- liquidationPricePercent
          (calculateContract64 (example_params64\<lparr>leverage := Fin 3, positionType := short\<rparr>)))"
proof -
  have l1: "div64 (Fin 1) (Fin 3) = Fin (6004799503160661 / 2 ^ 54)"
    by (simp add: div64_Fin)
       (subst round64_binade [where e = "- 2"];
        simp add: round_half_even_def signed_fin_def Let_def)
  have l2: "sub64 (Fin 1) (Fin (6004799503160661 / 2 ^ 54)) = Fin (3002399751580331 / 2 ^ 52)"
    by (simp add: sub64_Fin)
       (subst round64_binade [where e = "- 1"];
        simp add: round_half_even_def signed_fin_def Let_def)
  have l3: "add64 (Fin (3002399751580331 / 2 ^ 52)) (Fin (5764607523034235 / 2 ^ 60)) = Fin (6049835499434367 / 2 ^ 53)"
    by (simp add: add64_Fin)
       (subst round64_binade [where e = "- 1"];
        simp add: round_half_even_def signed_fin_def Let_def)
  have l4: "mul64 (Fin 60000) (Fin (6049835499434367 / 2 ^ 53)) = Fin (5538789824921601 / 2 ^ 37)"
    by (simp add: mul64_Fin)
       (subst round64_binade [where e = "15"];
        simp add: round_half_even_def signed_fin_def Let_def)
  have l5: "sub64 (Fin (5538789824921601 / 2 ^ 37)) (Fin 60000) = Fin (- (2707547383398399 / 2 ^ 37))"
    by (simp add: sub64_Fin)
       (subst round64_binade [where e = "14"];
        simp add: round_half_even_def signed_fin_def Let_def)
  have l6: "div64 (Fin (- (2707547383398399 / 2 ^ 37))) (Fin 60000) = Fin (- (5914727510613249 / 2 ^ 54))"
    by (simp add: div64_Fin)
       (subst round64_binade [where e = "- 2"];
        simp add: round_half_even_def signed_fin_def Let_def)
  have l7: "mul64 (Fin (- (5914727510613249 / 2 ^ 54))) (Fin 100) = Fin (- (4620880867666601 / 2 ^ 47))"
    by (simp add: mul64_Fin)
       (subst round64_binade [where e = "5"];
        simp add: round_half_even_def signed_fin_def Let_def)
  have s2: "add64 (Fin 1) (Fin (6004799503160661 / 2 ^ 54)) = Fin (6004799503160661 / 2 ^ 52)"
    by (simp add: add64_Fin)
       (subst round64_binade [where e = "0"];
        simp add: round_half_even_def signed_fin_def Let_def)
  have s3: "sub64 (Fin (6004799503160661 / 2 ^ 52)) (Fin (5764607523034235 / 2 ^ 60)) = Fin (5982281505023809 / 2 ^ 52)"
    by (simp add: sub64_Fin)
       (subst round64_binade [where e = "0"];
        simp add: round_half_even_def signed_fin_def Let_def)
  have s4: "mul64 (Fin 60000) (Fin (5982281505023809 / 2 ^ 52)) = Fin 79700"
    by (simp add: mul64_Fin)
       (subst round64_binade [where e = "16"];
        simp add: round_half_even_def signed_fin_def Let_def)
  have s5: "sub64 (Fin 79700) (Fin 60000) = Fin 19700"
    by (simp add: sub64_Fin)
       (subst round64_binade [where e = "14"];
        simp add: round_half_even_def signed_fin_def Let_def)
  have s6: "div64 (Fin 19700) (Fin 60000) = Fin (5914727510613251 / 2 ^ 54)"
    by (simp add: div64_Fin)
       (subst round64_binade [where e = "- 2"];
        simp add: round_half_even_def signed_fin_def Let_def)
  have s7: "mul64 (Fin (5914727510613251 / 2 ^ 54)) (Fin 100) = Fin (2310440433833301 / 2 ^ 46)"
    by (simp add: mul64_Fin)
       (subst round64_binade [where e = "5"];
        simp add: round_half_even_def signed_fin_def Let_def)
  have long: "liquidationPricePercent
     (calculateContract64 (example_params64\<lparr>leverage := Fin 3, positionType := long\<rparr>))
     = Fin (- (4620880867666601 / 2 ^ 47))"
    by (simp only: liquidationPricePercent64_calc liquidationPrice64_calc example_params64_def
        ContractParams.simps nullish.simps lit64_rate simp_thms if_True l1 l2 l3 l4 l5 l6 l7)
  have short: "liquidationPricePercent
     (calculateContract64 (example_params64\<lparr>leverage := Fin 3, positionType := short\<rparr>))
     = Fin (4620880867666602 / 2 ^ 47)"
    by (simp only: liquidationPricePercent64_calc liquidationPrice64_calc example_params64_def
        ContractParams.simps nullish.simps lit64_rate PositionType.simps simp_thms if_False
        l1 s2 s3 s4 s5 s6 s7)
      simp
  show ?thesis
    unfolding long short
    by (simp add: finite_params_example64 finite_params_leverage less_number_def strict_eq_def)
qed

text \<open>
  C8. The risk is not negative: for real parameters with a positive open price, long
  or short, whatever the leverage and the maintenance rate, the risk percentage is at
  least 0 (it is the positive infinity when the leverage is a zero).
\<close>

theorem riskPercentage_nonneg:
  assumes "finite_params p" and "Fin 0 < openPrice p"
  shows "Fin 0 \<le> riskPercentage (calculateContract p)"
proof -
  note fp = finite_paramsD [OF assms(1)]
  obtain x where x: "openPrice p = Fin x" "0 < x"
    using positive_fin [OF fp(1) assms(2)] by blast
  show ?thesis
  proof (cases "val (leverage p) = 0")
    case True
    then have "leverage p = Fin 0 \<or> leverage p = NegZero"
      using fp(3) by (rule zero_fin [rotated])
    then show ?thesis
      using x fp(4) [of "0.005"]
      by (auto simp add: riskPercentage_calc liquidationPrice_calc
          liquidation_zero_leverage percent_of_infinity less_eq_number_def)
  next
    case False
    have l: "is_fin (liquidationPrice (calculateContract p))"
      using False by (simp add: liquidationPrice_calc fp)
    have r: "is_fin (riskPercentage (calculateContract p))"
      using l x by (simp add: riskPercentage_calc)
    have "val (riskPercentage (calculateContract p)) =
        \<bar>val (liquidationPrice (calculateContract p)) - x\<bar> / x * 100"
      using l x by (simp add: riskPercentage_calc)
    moreover have "0 \<le> \<bar>val (liquidationPrice (calculateContract p)) - x\<bar> / x * 100"
      using x(2) by simp
    ultimately show ?thesis
      using r by (simp add: less_eq_fin)
  qed
qed

theorem riskPercentage_nonneg_witness:
  "finite_params example_params \<and> Fin 0 < openPrice example_params \<and>
   Fin 0 \<le> riskPercentage (calculateContract example_params) \<and>
   Fin 0 \<le> riskPercentage (calculateContract (example_params\<lparr>positionType := short\<rparr>)) \<and>
   Fin 0 \<le> riskPercentage (calculateContract (example_params\<lparr>leverage := Fin 0\<rparr>))"
proof -
  have pos: "Fin 0 < openPrice example_params"
    by (simp add: example_params_def less_number_def)
  have fin0: "finite_params (example_params\<lparr>leverage := Fin 0\<rparr>)"
    by (simp add: finite_params_def example_params_def)
  have "Fin 0 \<le> riskPercentage (calculateContract example_params)"
    using riskPercentage_nonneg [OF finite_params_example pos] .
  moreover have
    "Fin 0 \<le> riskPercentage (calculateContract (example_params\<lparr>positionType := short\<rparr>))"
    using riskPercentage_nonneg [of "example_params\<lparr>positionType := short\<rparr>"]
      finite_params_example pos by simp
  moreover have
    "Fin 0 \<le> riskPercentage (calculateContract (example_params\<lparr>leverage := Fin 0\<rparr>))"
    using riskPercentage_nonneg [OF fin0] pos by simp
  ultimately show ?thesis
    using finite_params_example pos by blast
qed

text \<open>
  C9. The break-even price overshoots by a tenth of the fees: for real parameters with
  a positive open price and a position size \<open>margin * leverage\<close> that is not zero,
  long or short, the profit at the reported break-even price is 0.1 times the total
  fee.
\<close>

theorem break_even_profit_is_tenth_of_fees:
  assumes "finite_params p" and "Fin 0 < openPrice p"
    and "\<not> is_zero (margin p * leverage p)"
  shows "strict_eq (profitAtPrice (calculateContract p) (breakEvenPrice (calculateContract p)))
                   (Fin 0.1 * totalFeeAmount (calculateContract p))"
proof -
  note fp = finite_paramsD [OF assms(1)]
  have op: "val (openPrice p) \<noteq> 0"
    using assms(2) fp(1) by (simp add: less_fin)
  have ps: "val (margin p) * val (leverage p) \<noteq> 0"
    using assms(3) fp by (simp add: is_zero_val)
  show ?thesis
    using op ps by (simp add: calc_fields fp strict_eq_fin field_simps)
qed

theorem break_even_profit_is_tenth_of_fees_witness:
  "finite_params example_params \<and> Fin 0 < openPrice example_params \<and>
   \<not> is_zero (margin example_params * leverage example_params) \<and>
   strict_eq (profitAtPrice (calculateContract example_params)
                (breakEvenPrice (calculateContract example_params)))
             (Fin 0.1 * totalFeeAmount (calculateContract example_params)) \<and>
   strict_eq (profitAtPrice (calculateContract (example_params\<lparr>positionType := short\<rparr>))
                (breakEvenPrice (calculateContract (example_params\<lparr>positionType := short\<rparr>))))
             (Fin 0.1 * totalFeeAmount (calculateContract (example_params\<lparr>positionType := short\<rparr>)))"
proof -
  have pos: "Fin 0 < openPrice example_params"
    by (simp add: example_params_def less_number_def)
  have nz: "\<not> is_zero (margin example_params * leverage example_params)"
    by (simp add: example_params_def Fin_times)
  have "strict_eq (profitAtPrice (calculateContract example_params)
                (breakEvenPrice (calculateContract example_params)))
             (Fin 0.1 * totalFeeAmount (calculateContract example_params))"
    using break_even_profit_is_tenth_of_fees [OF finite_params_example pos nz] .
  moreover have "strict_eq
      (profitAtPrice (calculateContract (example_params\<lparr>positionType := short\<rparr>))
         (breakEvenPrice (calculateContract (example_params\<lparr>positionType := short\<rparr>))))
      (Fin 0.1 * totalFeeAmount (calculateContract (example_params\<lparr>positionType := short\<rparr>)))"
    using break_even_profit_is_tenth_of_fees [of "example_params\<lparr>positionType := short\<rparr>"]
      finite_params_example pos nz by simp
  ultimately show ?thesis
    using finite_params_example pos nz by simp
qed

text \<open>
  C10. A long liquidation price at high leverage is above the open price, in exact
  real arithmetic: for real parameters of a long position with a positive open price
  and a positive leverage, the liquidation price is below the open price exactly when
  \<open>1 / leverage\<close> is above the maintenance rate; with the maintenance rate 0.005
  (the default), a leverage above 200 gives a liquidation price above the open price
  and a positive \<open>liquidationPricePercent\<close>, when no operation rounds.
\<close>

theorem long_liquidation_below_open_iff:
  assumes "finite_params p" and "positionType p = long"
    and "Fin 0 < openPrice p" and "Fin 0 < leverage p"
  shows "(liquidationPrice (calculateContract p) < openPrice p \<longleftrightarrow>
            nullish (maintainanceRate p) (Fin 0.005) < Fin 1 / leverage p) \<and>
         (nullish (maintainanceRate p) (Fin 0.005) = Fin 0.005 \<and> Fin 200 < leverage p \<longrightarrow>
            openPrice p < liquidationPrice (calculateContract p) \<and>
            Fin 0 < liquidationPricePercent (calculateContract p))"
proof -
  note fp = finite_paramsD [OF assms(1)]
  have op: "0 < val (openPrice p)"
    using assms(3) fp(1) by (simp add: less_fin)
  have lev: "0 < val (leverage p)"
    using assms(4) fp(3) by (simp add: less_fin)
  define x where "x = val (openPrice p)"
  define l where "l = val (leverage p)"
  define m where "m = val (nullish (maintainanceRate p) (Fin 0.005))"
  have liq: "is_fin (liquidationPrice (calculateContract p))"
    "val (liquidationPrice (calculateContract p)) = x * (1 - 1 / l + m)"
    using lev assms(2) by (simp_all add: calc_fields fp x_def l_def m_def)
  have pct: "is_fin (liquidationPricePercent (calculateContract p))"
    "val (liquidationPricePercent (calculateContract p)) = (x * (1 - 1 / l + m) - x) / x * 100"
    using op liq by (simp_all add: liquidationPricePercent_calc fp x_def)
  have inv: "is_fin (Fin 1 / leverage p)" "val (Fin 1 / leverage p) = 1 / l"
    using lev by (simp_all add: fp l_def)
  have "x * (1 - 1 / l + m) < x \<longleftrightarrow> m < 1 / l"
  proof -
    have "x * (1 - 1 / l + m) < x * 1 \<longleftrightarrow> 1 - 1 / l + m < 1"
      using op unfolding x_def by (rule mult_less_cancel_left_pos)
    then show ?thesis by auto
  qed
  then have first: "liquidationPrice (calculateContract p) < openPrice p \<longleftrightarrow>
      nullish (maintainanceRate p) (Fin 0.005) < Fin 1 / leverage p"
    using liq inv by (simp add: less_fin fp x_def [symmetric] m_def)
  have second: "openPrice p < liquidationPrice (calculateContract p) \<and>
      Fin 0 < liquidationPricePercent (calculateContract p)"
    if d: "nullish (maintainanceRate p) (Fin 0.005) = Fin 0.005" and big: "Fin 200 < leverage p"
  proof -
    have m: "m = 0.005" using d by (simp add: m_def)
    have l200: "200 < l" using big fp(3) by (simp add: less_fin l_def)
    then have "1 / l < 1 / 200"
      by (simp add: field_simps)
    then have gt: "1 < 1 - 1 / l + m" using m by simp
    then have "x * 1 < x * (1 - 1 / l + m)"
      using op unfolding x_def by (simp only: mult_less_cancel_left_pos)
    then have a: "x < x * (1 - 1 / l + m)" by simp
    then have "0 < (x * (1 - 1 / l + m) - x) / x * 100"
      using op by (simp add: x_def)
    with a show ?thesis
      using liq pct by (simp add: less_fin fp x_def [symmetric])
  qed
  from first second show ?thesis by blast
qed

theorem long_liquidation_below_open_iff_witness:
  "finite_params example_params \<and> positionType example_params = long \<and>
   Fin 0 < openPrice example_params \<and> Fin 0 < leverage example_params \<and>
   nullish (maintainanceRate example_params) (Fin 0.005) < Fin 1 / leverage example_params \<and>
   liquidationPrice (calculateContract example_params) < openPrice example_params \<and>
   Fin 200 < leverage (example_params\<lparr>leverage := Fin 250\<rparr>) \<and>
   openPrice example_params
     < liquidationPrice (calculateContract (example_params\<lparr>leverage := Fin 250\<rparr>)) \<and>
   Fin 0 < liquidationPricePercent (calculateContract (example_params\<lparr>leverage := Fin 250\<rparr>))"
proof -
  have long: "positionType example_params = long"
    by (simp add: example_params_def)
  have pos: "Fin 0 < openPrice example_params"
    by (simp add: example_params_def less_number_def)
  have lev: "Fin 0 < leverage example_params"
    by (simp add: example_params_def less_number_def)
  have rate: "nullish (maintainanceRate example_params) (Fin 0.005)
      < Fin 1 / leverage example_params"
    by (simp add: example_params_def Fin_divide less_number_def)
  have below: "liquidationPrice (calculateContract example_params) < openPrice example_params"
    using long_liquidation_below_open_iff [OF finite_params_example long pos lev] rate
    by blast
  have fin250: "finite_params (example_params\<lparr>leverage := Fin 250\<rparr>)"
    by (simp add: finite_params_def example_params_def)
  have hyps250: "positionType (example_params\<lparr>leverage := Fin 250\<rparr>) = long"
    "Fin 0 < openPrice (example_params\<lparr>leverage := Fin 250\<rparr>)"
    "Fin 0 < leverage (example_params\<lparr>leverage := Fin 250\<rparr>)"
    "nullish (maintainanceRate (example_params\<lparr>leverage := Fin 250\<rparr>)) (Fin 0.005) = Fin 0.005"
    "Fin 200 < leverage (example_params\<lparr>leverage := Fin 250\<rparr>)"
    by (simp_all add: example_params_def less_number_def)
  have above: "openPrice (example_params\<lparr>leverage := Fin 250\<rparr>)
      < liquidationPrice (calculateContract (example_params\<lparr>leverage := Fin 250\<rparr>)) \<and>
    Fin 0 < liquidationPricePercent (calculateContract (example_params\<lparr>leverage := Fin 250\<rparr>))"
    using long_liquidation_below_open_iff [OF fin250 hyps250(1,2,3)] hyps250(4,5)
    by blast
  show ?thesis
    using finite_params_example long pos lev rate below hyps250(5) above by simp
qed

text \<open>
  C10 as it is stated fails for the running code, which rounds every operation. At the
  leverage \<open>7036874417766401 / 2^45\<close> (200.00000000000003, above 200) with open price
  60000 and maintenance rate 0.005 the factor \<open>1 - 1 / leverage + 0.005\<close> rounds to 1:
  the liquidation price is 60000, not above the open price, and the percentage is 0.
  At the leverage \<open>7036874417766399 / 2^45\<close> (199.99999999999997) the maintenance
  rate is below \<open>1 / leverage\<close>, and the liquidation price is 60000 again, not below
  the open price.
\<close>

theorem long_liquidation_rounding_counterexample:
  "finite_params (example_params64\<lparr>leverage := Fin (7036874417766401 / 2 ^ 45)\<rparr>) \<and>
   positionType (example_params64\<lparr>leverage := Fin (7036874417766401 / 2 ^ 45)\<rparr>) = long \<and>
   Fin 0 < openPrice (example_params64\<lparr>leverage := Fin (7036874417766401 / 2 ^ 45)\<rparr>) \<and>
   maintainanceRate (example_params64\<lparr>leverage := Fin (7036874417766401 / 2 ^ 45)\<rparr>)
     = Some (lit64 0.005) \<and>
   Fin 200 < leverage (example_params64\<lparr>leverage := Fin (7036874417766401 / 2 ^ 45)\<rparr>) \<and>
   liquidationPrice
     (calculateContract64 (example_params64\<lparr>leverage := Fin (7036874417766401 / 2 ^ 45)\<rparr>))
     = Fin 60000 \<and>
   \<not> openPrice (example_params64\<lparr>leverage := Fin (7036874417766401 / 2 ^ 45)\<rparr>)
       < liquidationPrice
           (calculateContract64 (example_params64\<lparr>leverage := Fin (7036874417766401 / 2 ^ 45)\<rparr>)) \<and>
   liquidationPricePercent
     (calculateContract64 (example_params64\<lparr>leverage := Fin (7036874417766401 / 2 ^ 45)\<rparr>))
     = Fin 0 \<and>
   \<not> Fin 0 < liquidationPricePercent
       (calculateContract64 (example_params64\<lparr>leverage := Fin (7036874417766401 / 2 ^ 45)\<rparr>)) \<and>
   finite_params (example_params64\<lparr>leverage := Fin (7036874417766399 / 2 ^ 45)\<rparr>) \<and>
   Fin 0 < leverage (example_params64\<lparr>leverage := Fin (7036874417766399 / 2 ^ 45)\<rparr>) \<and>
   lit64 0.005
     < div64 (Fin 1) (leverage (example_params64\<lparr>leverage := Fin (7036874417766399 / 2 ^ 45)\<rparr>)) \<and>
   \<not> liquidationPrice
       (calculateContract64 (example_params64\<lparr>leverage := Fin (7036874417766399 / 2 ^ 45)\<rparr>))
     < openPrice (example_params64\<lparr>leverage := Fin (7036874417766399 / 2 ^ 45)\<rparr>)"
proof -
  have a1: "div64 (Fin 1) (Fin (7036874417766401 / 2 ^ 45)) = Fin (2882303761517117 / 2 ^ 59)"
    by (simp add: div64_Fin)
       (subst round64_binade [where e = "- 8"];
        simp add: round_half_even_def signed_fin_def Let_def)
  have a2: "sub64 (Fin 1) (Fin (2882303761517117 / 2 ^ 59)) = Fin (8962163258467287 / 2 ^ 53)"
    by (simp add: sub64_Fin)
       (subst round64_binade [where e = "- 1"];
        simp add: round_half_even_def signed_fin_def Let_def)
  have a3: "add64 (Fin (8962163258467287 / 2 ^ 53)) (Fin (5764607523034235 / 2 ^ 60)) = Fin 1"
    by (simp add: add64_Fin)
       (subst round64_binade [where e = "- 1"];
        simp add: round_half_even_def signed_fin_def Let_def)
  have a4: "mul64 (Fin 60000) (Fin 1) = Fin 60000"
    by (simp add: mul64_Fin)
       (subst round64_binade [where e = "15"];
        simp add: round_half_even_def signed_fin_def Let_def)
  have a5: "sub64 (Fin 60000) (Fin 60000) = Fin 0"
    by (simp add: sub64_def number_defs)
  have a6: "div64 (Fin 0) (Fin 60000) = Fin 0"
    by (simp add: div64_def number_defs)
  have a7: "mul64 (Fin 0) (Fin 100) = Fin 0"
    by (simp add: mul64_def number_defs)
  have b1: "div64 (Fin 1) (Fin (7036874417766399 / 2 ^ 45)) = Fin (1441151880758559 / 2 ^ 58)"
    by (simp add: div64_Fin)
       (subst round64_binade [where e = "- 8"];
        simp add: round_half_even_def signed_fin_def Let_def)
  have b2: "sub64 (Fin 1) (Fin (1441151880758559 / 2 ^ 58)) = Fin (8962163258467287 / 2 ^ 53)"
    by (simp add: sub64_Fin)
       (subst round64_binade [where e = "- 1"];
        simp add: round_half_even_def signed_fin_def Let_def)
  note steps = liquidationPricePercent64_calc liquidationPrice64_calc example_params64_def
    ContractParams.simps nullish.simps lit64_rate simp_thms if_True a1 a2 a3 a4 a5 a6 a7 b1 b2
  have liq_a: "liquidationPrice
     (calculateContract64 (example_params64\<lparr>leverage := Fin (7036874417766401 / 2 ^ 45)\<rparr>))
     = Fin 60000"
    by (simp only: steps)
  have pct_a: "liquidationPricePercent
     (calculateContract64 (example_params64\<lparr>leverage := Fin (7036874417766401 / 2 ^ 45)\<rparr>))
     = Fin 0"
    by (simp only: steps)
  have liq_b: "liquidationPrice
     (calculateContract64 (example_params64\<lparr>leverage := Fin (7036874417766399 / 2 ^ 45)\<rparr>))
     = Fin 60000"
    by (simp only: steps)
  have inv_b: "div64 (Fin 1)
      (leverage (example_params64\<lparr>leverage := Fin (7036874417766399 / 2 ^ 45)\<rparr>))
     = Fin (1441151880758559 / 2 ^ 58)"
    by (simp only: steps)
  have rate: "maintainanceRate (example_params64\<lparr>leverage := Fin (7036874417766401 / 2 ^ 45)\<rparr>)
     = Some (lit64 0.005)"
    by (simp only: example_params64_def ContractParams.simps)
  show ?thesis
    unfolding liq_a pct_a liq_b inv_b rate lit64_rate
    by (simp add: finite_params_example64 finite_params_leverage less_number_def)
      (simp add: example_params64_def)
qed

end
